theory Spec2Isabelle
  imports Main "HOL-Library.Word" "HOL-Library.Sublist"
begin

section \<open>JavaScript strings\<close>

text \<open>
  A JavaScript string is a sequence of UTF-16 code units: \<open>length\<close>, \<open>slice\<close>,
  \<open>includes\<close> and \<open>trim\<close> all work on code units. String literals of the source
  that are ASCII are written with \<open>lit\<close>.
\<close>

type_synonym code_unit = "16 word"
type_synonym js_string = "code_unit list"

definition lit :: "string \<Rightarrow> js_string" where
  "lit s = map of_char s"

text \<open>
  \<open>String.prototype.trim\<close> strips WhiteSpace and LineTerminator code points
  (ECMAScript): TAB, LF, VT, FF, CR, SP, NBSP, U+1680, U+2000..U+200A, U+2028, U+2029,
  U+202F, U+205F, U+3000 and U+FEFF.
\<close>

definition is_js_space :: "code_unit \<Rightarrow> bool" where
  "is_js_space c \<longleftrightarrow>
     c = 0x09 \<or> c = 0x0A \<or> c = 0x0B \<or> c = 0x0C \<or> c = 0x0D \<or> c = 0x20 \<or> c = 0xA0 \<or>
     c = 0x1680 \<or> (0x2000 \<le> c \<and> c \<le> 0x200A) \<or> c = 0x2028 \<or> c = 0x2029 \<or>
     c = 0x202F \<or> c = 0x205F \<or> c = 0x3000 \<or> c = 0xFEFF"

definition trim :: "js_string \<Rightarrow> js_string" where
  "trim s = rev (dropWhile is_js_space (rev (dropWhile is_js_space s)))"

text \<open>\<open>s.includes(needle)\<close>: \<open>needle\<close> occurs in \<open>s\<close> as a contiguous run.\<close>

fun js_includes :: "js_string \<Rightarrow> js_string \<Rightarrow> bool" where
  "js_includes [] needle = (needle = [])"
| "js_includes (c # s) needle = (prefix needle (c # s) \<or> js_includes s needle)"

text \<open>\<open>parts.join(sep)\<close>\<close>

fun js_join :: "js_string \<Rightarrow> js_string list \<Rightarrow> js_string" where
  "js_join sep [] = []"
| "js_join sep [x] = x"
| "js_join sep (x # y # ys) = x @ sep @ js_join sep (y # ys)"

text \<open>
  \<open>xs.slice(0, end)\<close> on an array, for an integer \<open>end\<close>: a negative \<open>end\<close> counts
  from the end of the array.
\<close>

definition js_slice0 :: "'a list \<Rightarrow> int \<Rightarrow> 'a list" where
  "js_slice0 xs end =
     (if end < 0 then take (nat (int (length xs) + end)) xs else take (nat end) xs)"

text \<open>
  \<open>Array.prototype.sort(cmp)\<close> is a stable sort (ECMAScript 2019): an element is
  placed before the elements it does not compare greater than, and elements that
  compare equal keep their order.
\<close>

fun js_insert :: "('a \<Rightarrow> 'a \<Rightarrow> int) \<Rightarrow> 'a \<Rightarrow> 'a list \<Rightarrow> 'a list" where
  "js_insert cmp x [] = [x]"
| "js_insert cmp x (y # ys) =
     (if cmp x y \<le> 0 then x # y # ys else y # js_insert cmp x ys)"

definition js_sort :: "('a \<Rightarrow> 'a \<Rightarrow> int) \<Rightarrow> 'a list \<Rightarrow> 'a list" where
  "js_sort cmp xs = foldr (js_insert cmp) xs []"


section \<open>types/x-api.ts\<close>

record xapi_error =
  title :: js_string
  detail :: js_string
  error_type :: js_string
  error_value :: "js_string option"

record public_metrics =
  retweet_count :: int
  reply_count :: int
  like_count :: int
  quote_count :: int
  bookmark_count :: int
  impression_count :: int

record tweet =
  tweet_id :: js_string
  tweet_text :: js_string
  author_id :: js_string
  created_at :: js_string
  public_metrics :: public_metrics

record user =
  user_id :: js_string
  user_name :: js_string
  username :: js_string

record response_includes =
  users :: "user list option"

record meta =
  newest_id :: "js_string option"
  oldest_id :: "js_string option"
  result_count :: int
  next_token :: "js_string option"

record tweet_search_response =
  data :: "tweet list option"
  resp_includes :: "response_includes option"
  meta :: meta
  errors :: "xapi_error list option"

record author =
  author_name :: js_string
  author_username :: js_string

record processed_tweet =
  p_id :: js_string
  p_text :: js_string
  p_author :: author
  p_created_at :: js_string
  likes :: int
  retweets :: int
  url :: js_string


section \<open>services/tweet-processor.ts\<close>

definition DUPLICATE_CHECK_LENGTH :: nat where
  "DUPLICATE_CHECK_LENGTH = 100"

definition DEFAULT_DISPLAY_LIMIT :: int where
  "DEFAULT_DISPLAY_LIMIT = 10"

text \<open>\<open>users.forEach(user => map.set(user.id, user))\<close>: a later user replaces an
  earlier one with the same id.\<close>

definition createUserMap :: "user list \<Rightarrow> (js_string \<rightharpoonup> user)" where
  "createUserMap us = fold (\<lambda>u m. m(user_id u \<mapsto> u)) us Map.empty"

definition convertToProcessedTweet :: "tweet \<Rightarrow> (js_string \<rightharpoonup> user) \<Rightarrow> processed_tweet option" where
  "convertToProcessedTweet tw userMap =
     (case userMap (author_id tw) of
        None \<Rightarrow> None
      | Some u \<Rightarrow> Some \<lparr>
          p_id = tweet_id tw,
          p_text = tweet_text tw,
          p_author = \<lparr> author_name = user_name u, author_username = username u \<rparr>,
          p_created_at = created_at tw,
          likes = like_count (public_metrics tw),
          retweets = retweet_count (public_metrics tw),
          url = lit ''https://x.com/'' @ username u @ lit ''/status/'' @ tweet_id tw \<rparr>)"

definition filterByLikes :: "processed_tweet list \<Rightarrow> int \<Rightarrow> processed_tweet list" where
  "filterByLikes tweets minLikes = filter (\<lambda>t. likes t \<ge> minLikes) tweets"

definition dedup_key :: "processed_tweet \<Rightarrow> js_string" where
  "dedup_key t = trim (take DUPLICATE_CHECK_LENGTH (p_text t))"

text \<open>The \<open>for\<close> loop of \<open>removeDuplicates\<close>, with its two mutable locals
  \<open>seen\<close> and \<open>deduplicated\<close> passed along.\<close>

fun removeDuplicates_loop ::
  "processed_tweet list \<Rightarrow> js_string set \<Rightarrow> processed_tweet list \<Rightarrow> processed_tweet list" where
  "removeDuplicates_loop [] seen deduplicated = deduplicated"
| "removeDuplicates_loop (t # rest) seen deduplicated =
     (let key = dedup_key t in
      if key \<notin> seen
      then removeDuplicates_loop rest (insert key seen) (deduplicated @ [t])
      else removeDuplicates_loop rest seen deduplicated)"

definition removeDuplicates :: "processed_tweet list \<Rightarrow> processed_tweet list" where
  "removeDuplicates tweets = removeDuplicates_loop tweets {} []"

definition sortByLikes :: "processed_tweet list \<Rightarrow> processed_tweet list" where
  "sortByLikes tweets = js_sort (\<lambda>a b. likes b - likes a) tweets"

text \<open>\<open>response.data || []\<close> and \<open>response.includes?.users || []\<close>\<close>

definition response_tweets :: "tweet_search_response \<Rightarrow> tweet list" where
  "response_tweets response = (case data response of None \<Rightarrow> [] | Some ts \<Rightarrow> ts)"

definition response_users :: "tweet_search_response \<Rightarrow> user list" where
  "response_users response =
     (case resp_includes response of
        None \<Rightarrow> []
      | Some inc \<Rightarrow> (case users inc of None \<Rightarrow> [] | Some l \<Rightarrow> l))"

definition processTweets ::
  "tweet_search_response \<Rightarrow> int \<Rightarrow> int \<Rightarrow> processed_tweet list" where
  "processTweets response minLikes displayLimit =
     (let tweets = response_tweets response;
          us = response_users response
      in if length tweets = 0 then []
         else
           let userMap = createUserMap us;
               processedTweets = List.map_filter (\<lambda>tw. convertToProcessedTweet tw userMap) tweets;
               filteredByLikes = filterByLikes processedTweets minLikes;
               deduplicated = removeDuplicates filteredByLikes;
               sorted = sortByLikes deduplicated;
               limited = js_slice0 sorted displayLimit
           in limited)"

text \<open>The intermediate lists of \<open>processTweets\<close>: its locals \<open>processedTweets\<close>,
  \<open>filteredByLikes\<close> and \<open>deduplicated\<close>.\<close>

definition stage_processed :: "tweet_search_response \<Rightarrow> processed_tweet list" where
  "stage_processed response =
     List.map_filter (\<lambda>tw. convertToProcessedTweet tw (createUserMap (response_users response)))
       (response_tweets response)"

definition stage_filtered :: "tweet_search_response \<Rightarrow> int \<Rightarrow> processed_tweet list" where
  "stage_filtered response minLikes = filterByLikes (stage_processed response) minLikes"

definition stage_deduplicated :: "tweet_search_response \<Rightarrow> int \<Rightarrow> processed_tweet list" where
  "stage_deduplicated response minLikes = removeDuplicates (stage_filtered response minLikes)"


section \<open>types/config.ts\<close>

record global_settings =
  min_likes :: int
  max_results :: int
  lang :: js_string

text \<open>\<open>kw_min_likes\<close> is the optional field \<open>min_likes\<close> of a keyword entry.\<close>

record keyword_entry =
  kw_term :: js_string
  kw_min_likes :: "int option"

record keyword_config =
  version :: int
  global_settings :: global_settings
  cfg_keywords :: "keyword_entry list"

record env =
  X_BEARER_TOKEN :: js_string
  SLACK_WEBHOOK_URL :: js_string
  MANUAL_TRIGGER_KEY :: "js_string option"


section \<open>utils/query-builder.ts\<close>

definition QUERY_MAX_LENGTH :: nat where
  "QUERY_MAX_LENGTH = 1024"

definition BASE_CONDITIONS :: js_string where
  "BASE_CONDITIONS = lit ''-is:retweet''"

text \<open>
  The two \<open>throw new Error(...)\<close> of \<open>buildSearchQueries\<close>: no keyword was given;
  the query is longer than \<open>QUERY_MAX_LENGTH\<close> (the message carries the length).
\<close>

datatype build_error = NoKeywords | QueryTooLong nat

definition keywordTerm :: "keyword_entry \<Rightarrow> js_string" where
  "keywordTerm k =
     (if js_includes (kw_term k) (lit '' '') then lit [CHR 0x22] @ kw_term k @ lit [CHR 0x22]
      else kw_term k)"

definition fullQuery :: "keyword_entry list \<Rightarrow> global_settings \<Rightarrow> js_string" where
  "fullQuery kws gs =
     (let langCondition = lit ''lang:'' @ lang gs;
          baseQuery = BASE_CONDITIONS @ lit '' '' @ langCondition;
          keywordTerms = map keywordTerm kws;
          keywordQuery = lit ''('' @ js_join (lit '' OR '') keywordTerms @ lit '')''
      in keywordQuery @ lit '' '' @ baseQuery)"

definition buildSearchQueries ::
  "keyword_entry list \<Rightarrow> global_settings \<Rightarrow> build_error + js_string list" where
  "buildSearchQueries kws gs =
     (if length kws = 0 then Inl NoKeywords
      else
        let q = fullQuery kws gs
        in if length q > QUERY_MAX_LENGTH then Inl (QueryTooLong (length q))
           else Inr [q])"


section \<open>config.ts\<close>

text \<open>
  The configuration is taken with the type \<open>KeywordConfig\<close> that the source casts
  it to, so the \<open>typeof\<close> and \<open>Array.isArray\<close> tests hold; the range checks remain.
  One error per \<open>throw\<close>; the keyword errors carry the index.
\<close>

datatype config_error =
    BadVersion | BadMinLikes | BadMaxResults | BadLang | EmptyKeywords
  | BadTerm nat | BadKeywordMinLikes nat

definition validateGlobalSettings :: "global_settings \<Rightarrow> config_error + unit" where
  "validateGlobalSettings gs =
     (if min_likes gs < 0 then Inl BadMinLikes
      else if max_results gs < 10 \<or> max_results gs > 100 then Inl BadMaxResults
      else if length (lang gs) = 0 then Inl BadLang
      else Inr ())"

definition validateKeywordEntry :: "keyword_entry \<Rightarrow> nat \<Rightarrow> config_error + unit" where
  "validateKeywordEntry k index =
     (if length (trim (kw_term k)) = 0 then Inl (BadTerm index)
      else if (case kw_min_likes k of None \<Rightarrow> False | Some m \<Rightarrow> m < 0)
      then Inl (BadKeywordMinLikes index)
      else Inr ())"

text \<open>\<open>config.keywords.forEach((keyword, index) => validateKeywordEntry(keyword, index))\<close>\<close>

fun validateKeywords :: "keyword_entry list \<Rightarrow> nat \<Rightarrow> config_error + unit" where
  "validateKeywords [] index = Inr ()"
| "validateKeywords (k # ks) index =
     (case validateKeywordEntry k index of
        Inl e \<Rightarrow> Inl e
      | Inr _ \<Rightarrow> validateKeywords ks (Suc index))"

definition validateConfig :: "keyword_config \<Rightarrow> config_error + unit" where
  "validateConfig config =
     (if version config < 1 then Inl BadVersion
      else case validateGlobalSettings (global_settings config) of
        Inl e \<Rightarrow> Inl e
      | Inr _ \<Rightarrow>
         if length (cfg_keywords config) = 0 then Inl EmptyKeywords
         else validateKeywords (cfg_keywords config) 0)"

text \<open>\<open>keywordsData\<close> is the content of \<open>keywords.json\<close>, a parameter here.\<close>

definition loadConfig :: "keyword_config \<Rightarrow> config_error + keyword_config" where
  "loadConfig keywordsData =
     (case validateConfig keywordsData of Inl e \<Rightarrow> Inl e | Inr _ \<Rightarrow> Inr keywordsData)"

definition getMinLikes :: "keyword_entry \<Rightarrow> global_settings \<Rightarrow> int" where
  "getMinLikes k gs = (case kw_min_likes k of Some m \<Rightarrow> m | None \<Rightarrow> min_likes gs)"


section \<open>services/x-client.ts\<close>

record search_params =
  query :: js_string
  start_time :: js_string
  sp_max_results :: int
  tweet_fields :: js_string
  user_fields :: js_string
  expansions :: js_string

text \<open>
  The messages of \<open>XApiClientError\<close>, one constructor per message text of the source:
  authentication error (401, 403), credit exhausted (402), rate limit (429), server
  error with the status, generic API error with the status, request timed out, and
  request failed with the message of the underlying error.
\<close>

datatype client_message =
    MsgAuth | MsgCredit | MsgRateLimit | MsgServer int | MsgGeneric int
  | MsgTimeout | MsgRequestFailed js_string

datatype xapi_client_error =
  XApiClientError (message: client_message) (statusCode: int) (error_details: "xapi_error list option")

record js_error =
  error_name :: js_string
  error_text :: js_string

text \<open>
  What \<open>response.json()\<close> resolves to. The code reads a JSON value only through its
  properties \<open>data\<close>, \<open>includes\<close>, \<open>meta\<close> and \<open>errors\<close>: a value other than \<open>null\<close> is
  the record of these four, each absent (\<open>undefined\<close>) or present (a number, a string,
  a boolean or an array has none of them); reading a property of \<open>null\<close> throws a
  \<open>TypeError\<close>.
\<close>

record json_object =
  obj_data :: "tweet list option"
  obj_includes :: "response_includes option"
  obj_meta :: "meta option"
  obj_errors :: "xapi_error list option"

datatype json_value = JsonNull | JsonObject json_object

text \<open>The \<open>TypeError\<close> of a property read on \<open>null\<close> or \<open>undefined\<close>; \<open>prop\<close> is the
  property, and the message text is the engine's.\<close>

definition type_error :: "string \<Rightarrow> js_error" where
  "type_error prop =
     \<lparr>error_name = lit ''TypeError'',
      error_text = lit (''Cannot read properties of null or undefined (reading '' @ prop @ '')'')\<rparr>"

text \<open>
  What one call of \<open>fetch\<close> does: it resolves with a response (its status and what
  \<open>response.json()\<close> gives: a rejection or the parsed value), or it rejects with an
  error. \<open>AbortError\<close> is the name of the error of an aborted (timed-out) request.
\<close>

datatype fetch_outcome =
    Resolved int "js_error + json_value"
  | Rejected js_error

text \<open>The network: the outcome of the n-th \<open>fetch\<close> of the client, for the request built
  from the parameters.\<close>

type_synonym network = "nat \<Rightarrow> search_params \<Rightarrow> fetch_outcome"

text \<open>What the client has done so far: the number of \<open>fetch\<close> calls and the delays
  slept, in order.\<close>

record client_state =
  calls :: nat
  sleeps :: "int list"

definition response_ok :: "int \<Rightarrow> bool" where
  "response_ok status \<longleftrightarrow> 200 \<le> status \<and> status \<le> 299"

text \<open>What the \<open>try\<close> block of \<open>searchRecentTweets\<close> can throw: an \<open>XApiClientError\<close>, or
  another error.\<close>

datatype caught = ClientError xapi_client_error | OtherError js_error

text \<open>
  \<open>handleErrorResponse\<close>: a rejection of \<open>response.json()\<close> is swallowed and leaves
  \<open>errorData = {}\<close>; \<open>errorData.errors\<close> is read after the inner \<open>try\<close>, so for the
  body \<open>null\<close> the \<open>TypeError\<close> leaves the function.
\<close>

definition handleErrorResponse :: "int \<Rightarrow> js_error + json_value \<Rightarrow> caught + unit" where
  "handleErrorResponse status body =
     (if response_ok status then Inr ()
      else
        case body of
          Inr JsonNull \<Rightarrow> Inl (OtherError (type_error ''errors''))
        | _ \<Rightarrow>
          let errorData_errors = (case body of Inr (JsonObject d) \<Rightarrow> obj_errors d | _ \<Rightarrow> None);
              errs = (case errorData_errors of None \<Rightarrow> [] | Some es \<Rightarrow> es);
              msg = (if status = 401 \<or> status = 403 then MsgAuth
                     else if status = 402 then MsgCredit
                     else if status = 429 then MsgRateLimit
                     else if status = 500 \<or> status = 502 \<or> status = 503 \<or> status = 504
                     then MsgServer status
                     else MsgGeneric status)
          in Inl (ClientError (XApiClientError msg status (Some errs))))"

text \<open>The \<open>catch\<close> block of \<open>searchRecentTweets\<close> for an error that is not an
  \<open>XApiClientError\<close>.\<close>

definition wrapFetchError :: "js_error \<Rightarrow> xapi_client_error" where
  "wrapFetchError e =
     (if error_name e = lit ''AbortError'' then XApiClientError MsgTimeout 0 None
      else XApiClientError (MsgRequestFailed (error_text e)) 0 None)"

text \<open>
  After \<open>handleErrorResponse\<close> the body is read again: \<open>data.meta.result_count\<close> in the
  log call throws a \<open>TypeError\<close> for the body \<open>null\<close> and for a body without \<open>meta\<close>;
  otherwise the body is returned with the type \<open>TweetSearchResponse\<close>.
\<close>

definition readSearchResponse :: "json_value \<Rightarrow> js_error + tweet_search_response" where
  "readSearchResponse v =
     (case v of
        JsonNull \<Rightarrow> Inl (type_error ''meta'')
      | JsonObject d \<Rightarrow>
         (case obj_meta d of
            None \<Rightarrow> Inl (type_error ''result_count'')
          | Some m \<Rightarrow> Inr \<lparr>data = obj_data d, resp_includes = obj_includes d, meta = m,
                           errors = obj_errors d\<rparr>))"

definition searchRecentTweets ::
  "network \<Rightarrow> search_params \<Rightarrow> client_state
     \<Rightarrow> (xapi_client_error + tweet_search_response) \<times> client_state" where
  "searchRecentTweets net params st =
     (let st' = st\<lparr>calls := calls st + 1\<rparr>
      in case net (calls st) params of
           Rejected e \<Rightarrow> (Inl (wrapFetchError e), st')
         | Resolved status body \<Rightarrow>
             (case handleErrorResponse status body of
                Inl (ClientError err) \<Rightarrow> (Inl err, st')
              | Inl (OtherError e) \<Rightarrow> (Inl (wrapFetchError e), st')
              | Inr _ \<Rightarrow>
                 (case body of
                    Inl e \<Rightarrow> (Inl (wrapFetchError e), st')
                  | Inr v \<Rightarrow>
                     (case readSearchResponse v of
                        Inl e \<Rightarrow> (Inl (wrapFetchError e), st')
                      | Inr d \<Rightarrow> (Inr d, st')))))"

text \<open>What \<open>searchRecentTweetsWithRetry\<close> throws: a client error, or \<open>null\<close> from
  \<open>throw lastError!\<close> when the loop body never ran.\<close>

datatype thrown = Thrown xapi_client_error | ThrownNull

function retry_loop ::
  "network \<Rightarrow> search_params \<Rightarrow> int \<Rightarrow> int \<Rightarrow> int \<Rightarrow> xapi_client_error option \<Rightarrow> client_state
     \<Rightarrow> (thrown + tweet_search_response) \<times> client_state" where
  "retry_loop net params maxRetries retryDelay attempt lastError st =
     (if attempt \<le> maxRetries then
        (case searchRecentTweets net params st of
           (Inr d, st') \<Rightarrow> (Inr d, st')
         | (Inl err, st') \<Rightarrow>
             if statusCode err \<in> {401, 402, 403, 429} then (Inl (Thrown err), st')
             else if statusCode err \<ge> 500 \<and> statusCode err < 600 \<and> attempt < maxRetries
             then retry_loop net params maxRetries retryDelay (attempt + 1) (Some err)
                    (st'\<lparr>sleeps := sleeps st' @ [retryDelay]\<rparr>)
             else (Inl (Thrown err), st'))
      else (case lastError of None \<Rightarrow> (Inl ThrownNull, st) | Some e \<Rightarrow> (Inl (Thrown e), st)))"
  by pat_completeness auto
termination
  by (relation "measure (\<lambda>(net, params, maxRetries, retryDelay, attempt, lastError, st).
        nat (maxRetries - attempt))") auto

declare retry_loop.simps [simp del]

definition searchRecentTweetsWithRetry ::
  "network \<Rightarrow> search_params \<Rightarrow> int \<Rightarrow> int \<Rightarrow> client_state
     \<Rightarrow> (thrown + tweet_search_response) \<times> client_state" where
  "searchRecentTweetsWithRetry net params maxRetries retryDelay st =
     retry_loop net params maxRetries retryDelay 0 None st"

definition fresh_client :: client_state where
  "fresh_client = \<lparr>calls = 0, sleeps = []\<rparr>"


section \<open>index.ts\<close>

text \<open>
  \<open>executeDailyJob\<close> up to the call of \<open>buildNotificationSummary\<close>: its result is the
  arguments of that call, or the error thrown before it. The configuration file, the
  start time computed by \<open>getStartTime(24)\<close> and the network are parameters.
  \<open>new XApiClient(token)\<close> throws for an empty token (\<open>TokenMissing\<close>); \<open>queries[0]\<close>
  of an empty array would be undefined (\<open>NoQuery\<close>), which \<open>buildSearchQueries\<close> never
  returns.
\<close>

datatype job_error =
    ConfigFailed config_error
  | BuildFailed build_error
  | NoQuery
  | TokenMissing
  | SearchFailed thrown

record summary_args =
  sum_tweets :: "processed_tweet list"
  sum_keywords :: "js_string list"
  sum_fetchedCount :: int
  sum_filteredCount :: nat

definition executeDailyJob ::
  "env \<Rightarrow> keyword_config \<Rightarrow> js_string \<Rightarrow> network
     \<Rightarrow> (job_error + summary_args) \<times> search_params option \<times> client_state" where
  "executeDailyJob e keywordsData startTimeISO net =
     (case loadConfig keywordsData of
        Inl err \<Rightarrow> (Inl (ConfigFailed err), None, fresh_client)
      | Inr config \<Rightarrow>
         (case buildSearchQueries (cfg_keywords config) (global_settings config) of
            Inl err \<Rightarrow> (Inl (BuildFailed err), None, fresh_client)
          | Inr [] \<Rightarrow> (Inl NoQuery, None, fresh_client)
          | Inr (q # _) \<Rightarrow>
             if length (X_BEARER_TOKEN e) = 0 then (Inl TokenMissing, None, fresh_client)
             else
               let params = \<lparr> query = q,
                               start_time = startTimeISO,
                               sp_max_results = max_results (global_settings config),
                               tweet_fields = lit ''created_at,public_metrics,author_id'',
                               user_fields = lit ''username,name'',
                               expansions = lit ''author_id'' \<rparr>;
                   (r, st) = searchRecentTweetsWithRetry net params 1 30000 fresh_client
               in (case r of
                    Inl err \<Rightarrow> (Inl (SearchFailed err), Some params, st)
                  | Inr response \<Rightarrow>
                      let fetchedCount = result_count (meta response);
                          processedTweets =
                            processTweets response (min_likes (global_settings config))
                              DEFAULT_DISPLAY_LIMIT;
                          keywordTerms = map kw_term (cfg_keywords config)
                      in (Inr \<lparr> sum_tweets = processedTweets,
                                 sum_keywords = keywordTerms,
                                 sum_fetchedCount = fetchedCount,
                                 sum_filteredCount = length processedTweets \<rparr>,
                          Some params, st))))"


text \<open>The parameters of the search request of \<open>executeDailyJob\<close>, for the query \<open>q\<close>.\<close>

definition job_params :: "keyword_config \<Rightarrow> js_string \<Rightarrow> js_string \<Rightarrow> search_params" where
  "job_params config q startTimeISO =
     \<lparr>query = q,
      start_time = startTimeISO,
      sp_max_results = max_results (global_settings config),
      tweet_fields = lit ''created_at,public_metrics,author_id'',
      user_fields = lit ''username,name'',
      expansions = lit ''author_id''\<rparr>"


section \<open>Test data (test/specs/fixtures.ts)\<close>

definition fixture_users :: "user list" where
  "fixture_users =
     [\<lparr>user_id = lit ''user1'', user_name = lit ''Rails Developer'', username = lit ''rails_dev''\<rparr>,
      \<lparr>user_id = lit ''user2'', user_name = lit ''Ruby Enthusiast'', username = lit ''ruby_fan''\<rparr>,
      \<lparr>user_id = lit ''user3'', user_name = lit ''Next.js Pro'', username = lit ''nextjs_pro''\<rparr>,
      \<lparr>user_id = lit ''user4'', user_name = lit ''Hono Lover'', username = lit ''hono_lover''\<rparr>]"

definition createTweet :: "string \<Rightarrow> string \<Rightarrow> string \<Rightarrow> int \<Rightarrow> int \<Rightarrow> tweet" where
  "createTweet i author txt like_n retweet_n =
     \<lparr>tweet_id = lit i, tweet_text = lit txt, author_id = lit author,
      created_at = lit ''2026-02-10T08:00:00.000Z'',
      public_metrics = \<lparr>retweet_count = retweet_n, reply_count = 0, like_count = like_n,
        quote_count = 0, bookmark_count = 0, impression_count = 0\<rparr>\<rparr>"

definition createSearchResponse :: "tweet list \<Rightarrow> user list \<Rightarrow> tweet_search_response" where
  "createSearchResponse tweets responseUsers =
     \<lparr>data = Some tweets,
      resp_includes = Some \<lparr>users = Some responseUsers\<rparr>,
      meta = \<lparr>newest_id = (case tweets of [] \<Rightarrow> None | t # _ \<Rightarrow> Some (tweet_id t)),
              oldest_id = (if tweets = [] then None else Some (tweet_id (last tweets))),
              result_count = int (length tweets),
              next_token = None\<rparr>,
      errors = None\<rparr>"

text \<open>The pipeline-order test: likes 2, 10, 10, 5; the second and third texts are the same.\<close>

definition scenarioA_tweets :: "tweet list" where
  "scenarioA_tweets =
     [createTweet ''tweet_1'' ''user1'' ''Low likes tweet'' 2 0,
      createTweet ''tweet_2'' ''user2''
        ''Popular unique tweet with enough characters to be properly identified as unique content'' 10 5,
      createTweet ''tweet_3'' ''user3''
        ''Popular unique tweet with enough characters to be properly identified as unique content'' 10 3,
      createTweet ''tweet_4'' ''user4'' ''Medium popularity tweet'' 5 1]"

definition scenarioA :: tweet_search_response where
  "scenarioA = createSearchResponse scenarioA_tweets fixture_users"

definition processed :: "string \<Rightarrow> string \<Rightarrow> string \<Rightarrow> string \<Rightarrow> int \<Rightarrow> int \<Rightarrow> processed_tweet" where
  "processed i name uname txt like_n retweet_n =
     \<lparr>p_id = lit i, p_text = lit txt,
      p_author = \<lparr>author_name = lit name, author_username = lit uname\<rparr>,
      p_created_at = lit ''2026-02-10T08:00:00.000Z'',
      likes = like_n, retweets = retweet_n,
      url = lit (''https://x.com/'' @ uname @ ''/status/'' @ i)\<rparr>"

definition scenarioA_p2 :: processed_tweet where
  "scenarioA_p2 = processed ''tweet_2'' ''Ruby Enthusiast'' ''ruby_fan''
     ''Popular unique tweet with enough characters to be properly identified as unique content'' 10 5"

definition scenarioA_p3 :: processed_tweet where
  "scenarioA_p3 = processed ''tweet_3'' ''Next.js Pro'' ''nextjs_pro''
     ''Popular unique tweet with enough characters to be properly identified as unique content'' 10 3"

definition scenarioA_p4 :: processed_tweet where
  "scenarioA_p4 = processed ''tweet_4'' ''Hono Lover'' ''hono_lover''
     ''Medium popularity tweet'' 5 1"


text \<open>Three posts with different texts and likes 5, 10, 5.\<close>

definition ties :: tweet_search_response where
  "ties = createSearchResponse
     [createTweet ''tweet_1'' ''user1'' ''First post'' 5 0,
      createTweet ''tweet_2'' ''user2'' ''Second post'' 10 0,
      createTweet ''tweet_3'' ''user3'' ''Third post'' 5 0] fixture_users"

definition ties_p1 :: processed_tweet where
  "ties_p1 = processed ''tweet_1'' ''Rails Developer'' ''rails_dev'' ''First post'' 5 0"

definition ties_p2 :: processed_tweet where
  "ties_p2 = processed ''tweet_2'' ''Ruby Enthusiast'' ''ruby_fan'' ''Second post'' 10 0"

definition ties_p3 :: processed_tweet where
  "ties_p3 = processed ''tweet_3'' ''Next.js Pro'' ''nextjs_pro'' ''Third post'' 5 0"

text \<open>One post without likes.\<close>

definition zero_likes :: tweet_search_response where
  "zero_likes = createSearchResponse
     [createTweet ''tweet_1'' ''user1'' ''Zero likes tweet'' 0 0] fixture_users"

definition zero_likes_p1 :: processed_tweet where
  "zero_likes_p1 = processed ''tweet_1'' ''Rails Developer'' ''rails_dev'' ''Zero likes tweet'' 0 0"


definition createGlobalSettings :: global_settings where
  "createGlobalSettings = \<lparr>min_likes = 3, max_results = 50, lang = lit ''ja''\<rparr>"

definition createKeywordEntry :: "js_string \<Rightarrow> int option \<Rightarrow> keyword_entry" where
  "createKeywordEntry t minLikes = \<lparr>kw_term = t, kw_min_likes = minLikes\<rparr>"

text \<open>A keyword with a TAB between two letters, and keywords of one letter repeated
  (scenario E has a hundred of them, of 20 letters each).\<close>

definition tab_keyword :: keyword_entry where
  "tab_keyword = createKeywordEntry (lit [CHR ''a'', CHR 0x09, CHR ''b'']) None"

definition long_keyword :: "nat \<Rightarrow> keyword_entry" where
  "long_keyword n = createKeywordEntry (replicate n 0x61) None"


text \<open>The client's test data (test/specs/x-client.spec.ts): the parameters, the empty
  success response, the JSON value of a response, the error body \<open>{ errors: [] }\<close>, and
  networks whose first request times out or answers with a status, and whose later
  requests succeed.\<close>

definition defaultParams :: search_params where
  "defaultParams =
     \<lparr>query = lit ''(#Rails OR #Ruby) -is:retweet lang:ja'',
      start_time = lit ''2026-02-09T08:00:00.000Z'',
      sp_max_results = 50,
      tweet_fields = lit ''created_at,public_metrics,author_id'',
      user_fields = lit ''username,name'',
      expansions = lit ''author_id''\<rparr>"

definition createEmptyResponse :: tweet_search_response where
  "createEmptyResponse =
     \<lparr>data = Some [], resp_includes = None,
      meta = \<lparr>newest_id = None, oldest_id = None, result_count = 0, next_token = None\<rparr>,
      errors = None\<rparr>"

definition to_json :: "tweet_search_response \<Rightarrow> json_value" where
  "to_json r = JsonObject \<lparr>obj_data = data r, obj_includes = resp_includes r,
                           obj_meta = Some (meta r), obj_errors = errors r\<rparr>"

definition error_body :: json_value where
  "error_body = JsonObject \<lparr>obj_data = None, obj_includes = None, obj_meta = None,
                            obj_errors = Some []\<rparr>"

definition abort_error :: js_error where
  "abort_error = \<lparr>error_name = lit ''AbortError'', error_text = lit ''The operation was aborted''\<rparr>"

definition net_timeout_then_ok :: network where
  "net_timeout_then_ok n params =
     (if n = 0 then Rejected abort_error else Resolved 200 (Inr (to_json createEmptyResponse)))"

definition net_status_then_ok :: "int \<Rightarrow> network" where
  "net_status_then_ok status n params =
     (if n = 0 then Resolved status (Inr error_body)
      else Resolved 200 (Inr (to_json createEmptyResponse)))"

text \<open>The n-th request is answered with the n-th status of the list and the error
  body, the requests after them with success; and the first request is answered
  with the status 503 and the body \<open>null\<close>.\<close>

definition net_statuses :: "int list \<Rightarrow> network" where
  "net_statuses ss n params =
     (if n < length ss then Resolved (ss ! n) (Inr error_body)
      else Resolved 200 (Inr (to_json createEmptyResponse)))"

definition net_503_null :: network where
  "net_503_null n params =
     (if n = 0 then Resolved 503 (Inr JsonNull) else Resolved 200 (Inr (to_json createEmptyResponse)))"

text \<open>Two configurations that differ in the \<open>min_likes\<close> of their keywords only, one
  with a negative \<open>min_likes\<close>, an environment, and a network that answers every request
  with the response of scenario A.\<close>

definition config_plain :: keyword_config where
  "config_plain =
     \<lparr>version = 1, global_settings = createGlobalSettings,
      cfg_keywords = [createKeywordEntry (lit ''#Rails'') None,
                      createKeywordEntry (lit ''Hono Framework'') None]\<rparr>"

definition config_min_likes :: keyword_config where
  "config_min_likes =
     \<lparr>version = 1, global_settings = createGlobalSettings,
      cfg_keywords = [createKeywordEntry (lit ''#Rails'') (Some 5),
                      createKeywordEntry (lit ''Hono Framework'') (Some 100)]\<rparr>"

definition config_negative :: keyword_config where
  "config_negative =
     \<lparr>version = 1, global_settings = createGlobalSettings,
      cfg_keywords = [createKeywordEntry (lit ''#Rails'') (Some (- 1)),
                      createKeywordEntry (lit ''Hono Framework'') None]\<rparr>"

definition test_env :: env where
  "test_env = \<lparr>X_BEARER_TOKEN = lit ''valid-bearer-token'',
                SLACK_WEBHOOK_URL = lit ''https://hooks.slack.com/services/T/B/X'',
                MANUAL_TRIGGER_KEY = None\<rparr>"

definition net_scenarioA :: network where
  "net_scenarioA n params = Resolved 200 (Inr (to_json scenarioA))"


section \<open>Configurations that differ in the keywords' min_likes only\<close>

definition same_except_keyword_min_likes :: "keyword_config \<Rightarrow> keyword_config \<Rightarrow> bool" where
  "same_except_keyword_min_likes c1 c2 \<longleftrightarrow>
     version c1 = version c2 \<and> global_settings c1 = global_settings c2 \<and>
     map kw_term (cfg_keywords c1) = map kw_term (cfg_keywords c2)"

text \<open>The data model's \<open>min_likes?: non-negative integer\<close> of a keyword entry.\<close>

definition keyword_min_likes_nonneg :: "keyword_config \<Rightarrow> bool" where
  "keyword_min_likes_nonneg c \<longleftrightarrow>
     list_all (\<lambda>k. case kw_min_likes k of None \<Rightarrow> True | Some m \<Rightarrow> 0 \<le> m) (cfg_keywords c)"


section \<open>The query format in the words of the specification\<close>

text \<open>
  One OR-group of all terms in input order, a term in double quotes when
  \<open>needs_quotes\<close> holds for it and as it is otherwise, followed by the retweet
  exclusion and the language clause.
\<close>

definition quoted_or_group ::
  "(js_string \<Rightarrow> bool) \<Rightarrow> keyword_entry list \<Rightarrow> global_settings \<Rightarrow> js_string" where
  "quoted_or_group needs_quotes kws gs =
     lit ''('' @
     js_join (lit '' OR '')
       (map (\<lambda>k. if needs_quotes (kw_term k)
                 then lit [CHR 0x22] @ kw_term k @ lit [CHR 0x22] else kw_term k) kws) @
     lit '') -is:retweet lang:'' @ lang gs"

text \<open>The term contains any whitespace character; the term contains a space (U+0020).\<close>

definition contains_whitespace :: "js_string \<Rightarrow> bool" where
  "contains_whitespace s \<longleftrightarrow> (\<exists>c \<in> set s. is_js_space c)"

definition contains_space :: "js_string \<Rightarrow> bool" where
  "contains_space s \<longleftrightarrow> 0x20 \<in> set s"


section \<open>The stages of the pipeline\<close>

lemma processTweets_stages:
  "processTweets r m d = js_slice0 (sortByLikes (stage_deduplicated r m)) d"
  by (simp add: processTweets_def stage_deduplicated_def stage_filtered_def stage_processed_def
      Let_def js_slice0_def sortByLikes_def js_sort_def removeDuplicates_def filterByLikes_def
      List.map_filter_simps)

lemma js_insert_insort: "js_insert (\<lambda>a b. f b - f a) x ys = insort_key (\<lambda>t. - f t) x ys"
  by (induction ys) auto

lemma sortByLikes_sort_key: "sortByLikes ts = sort_key (\<lambda>t. - likes t) ts"
  by (induction ts) (simp_all add: sortByLikes_def js_sort_def js_insert_insort)

lemma set_sortByLikes: "set (sortByLikes ts) = set ts"
  by (simp add: sortByLikes_sort_key)

lemma sorted_sortByLikes: "sorted_wrt (\<lambda>a b. likes a \<ge> likes b) (sortByLikes ts)"
proof -
  have "sorted (map (\<lambda>t. - likes t) (sortByLikes ts))"
    by (simp add: sortByLikes_sort_key)
  then show ?thesis
    by (simp add: sorted_wrt_map)
qed

lemma stable_sortByLikes:
  "filter (\<lambda>t. likes t = k) (sortByLikes ts) = filter (\<lambda>t. likes t = k) ts"
proof -
  have "filter (\<lambda>t. - likes t = - k) (sort_key (\<lambda>t. - likes t) ts)
        = filter (\<lambda>t. - likes t = - k) ts"
    by (rule sort_key_stable)
  then show ?thesis by (simp add: sortByLikes_sort_key)
qed

lemma js_slice0_take: "\<exists>n. js_slice0 xs d = take n xs"
  by (auto simp: js_slice0_def)

lemma loop_acc:
  "removeDuplicates_loop xs seen acc = acc @ removeDuplicates_loop xs seen []"
proof (induction xs arbitrary: seen acc)
  case Nil
  show ?case by simp
next
  case (Cons x xs)
  show ?case
    using Cons.IH [of "insert (dedup_key x) seen" "acc @ [x]"]
          Cons.IH [of "insert (dedup_key x) seen" "[x]"]
          Cons.IH [of seen acc]
    by (simp add: Let_def)
qed

lemma loop_Cons:
  "removeDuplicates_loop (x # xs) seen [] =
     (if dedup_key x \<notin> seen then x # removeDuplicates_loop xs (insert (dedup_key x) seen) []
      else removeDuplicates_loop xs seen [])"
  using loop_acc [of xs "insert (dedup_key x) seen" "[x]"] by (simp add: Let_def)




lemma loop_subset: "set (removeDuplicates_loop xs seen []) \<subseteq> set xs"
  by (induction xs arbitrary: seen) (auto simp: loop_Cons simp del: removeDuplicates_loop.simps(2))




lemma removeDuplicates_subset: "set (removeDuplicates ts) \<subseteq> set ts"
  by (simp add: removeDuplicates_def loop_subset)




lemma set_js_slice0: "set (js_slice0 xs d) \<subseteq> set xs"
  by (auto simp: js_slice0_def dest: in_set_takeD)


lemma processTweets_subset: "set (processTweets r m d) \<subseteq> set (stage_deduplicated r m)"
  using set_js_slice0 [of "sortByLikes (stage_deduplicated r m)" d]
  by (simp add: processTweets_stages set_sortByLikes)

lemma subseq_pair_nth:
  assumes "i < j" "j < length xs"
  shows "subseq [xs ! i, xs ! j] xs"
proof -
  have 1: "xs = take i xs @ xs ! i # drop (Suc i) xs"
    using assms by (simp add: id_take_nth_drop)
  have 2: "drop (Suc i) xs = take (j - Suc i) (drop (Suc i) xs) @ xs ! j # drop (Suc j) xs"
    using assms id_take_nth_drop [of "j - Suc i" "drop (Suc i) xs"] by simp
  have "subseq [xs ! j] (drop (Suc i) xs)"
    by (subst 2) (simp add: list_emb_append2)
  then have "subseq [xs ! i, xs ! j] (xs ! i # drop (Suc i) xs)" by simp
  then have "subseq [xs ! i, xs ! j] (take i xs @ xs ! i # drop (Suc i) xs)"
    by (rule list_emb_append2)
  with 1 show ?thesis by simp
qed

section \<open>String literals and the test data\<close>

lemma of_char_unat: "unat (of_char c :: 16 word) = of_char c"
proof -
  have "(of_char c :: nat) < 2 ^ LENGTH(16)"
    by (rule less_trans [OF nat_of_char_less_256]) simp
  moreover have "(word_of_nat (of_char c) :: 16 word) = of_char c"
    by (rule of_nat_of_char)
  ultimately show ?thesis
    by (rule of_nat_inverse [rotated])
qed

lemma of_char_word_eq_iff: "((of_char c :: 16 word) = of_char d) \<longleftrightarrow> c = d"
  by (metis of_char_unat of_char_eq_iff)

lemma lit_eq_iff: "lit s = lit t \<longleftrightarrow> s = t"
  unfolding lit_def
  by (rule inj_map_eq_map) (simp add: inj_on_def of_char_word_eq_iff)

lemma lit_append: "lit (s @ t) = lit s @ lit t"
  by (simp add: lit_def)

lemma scenarioA_users:
  "createUserMap fixture_users (lit ''user1'') = Some (fixture_users ! 0)"
  "createUserMap fixture_users (lit ''user2'') = Some (fixture_users ! 1)"
  "createUserMap fixture_users (lit ''user3'') = Some (fixture_users ! 2)"
  "createUserMap fixture_users (lit ''user4'') = Some (fixture_users ! 3)"
  by (simp_all add: createUserMap_def fixture_users_def lit_eq_iff)

lemma scenarioA_processed:
  "stage_processed scenarioA =
     [processed ''tweet_1'' ''Rails Developer'' ''rails_dev'' ''Low likes tweet'' 2 0,
      scenarioA_p2, scenarioA_p3, scenarioA_p4]"
  by (simp add: stage_processed_def scenarioA_def createSearchResponse_def response_users_def
      response_tweets_def scenarioA_tweets_def createTweet_def List.map_filter_simps
      convertToProcessedTweet_def scenarioA_users processed_def scenarioA_p2_def scenarioA_p3_def
      scenarioA_p4_def)
     (simp add: fixture_users_def lit_def)

lemma scenarioA_keys:
  "dedup_key scenarioA_p2 = lit ''Popular unique tweet with enough characters to be properly identified as unique content''"
  "dedup_key scenarioA_p3 = lit ''Popular unique tweet with enough characters to be properly identified as unique content''"
  "dedup_key scenarioA_p4 = lit ''Medium popularity tweet''"
  by (simp_all add: dedup_key_def scenarioA_p2_def scenarioA_p3_def scenarioA_p4_def processed_def
      DUPLICATE_CHECK_LENGTH_def trim_def lit_def is_js_space_def)


lemma scenarioA_likes:
  "likes scenarioA_p2 = 10" "likes scenarioA_p3 = 10" "likes scenarioA_p4 = 5"
  by (simp_all add: scenarioA_p2_def scenarioA_p3_def scenarioA_p4_def processed_def)

lemma scenarioA_filtered: "stage_filtered scenarioA 3 = [scenarioA_p2, scenarioA_p3, scenarioA_p4]"
  by (simp add: stage_filtered_def scenarioA_processed filterByLikes_def scenarioA_likes)
     (simp add: processed_def)

lemma scenarioA_key_neq: "dedup_key scenarioA_p4 \<noteq> dedup_key scenarioA_p2"
  by (simp add: scenarioA_keys lit_eq_iff)

lemma scenarioA_deduplicated: "stage_deduplicated scenarioA 3 = [scenarioA_p2, scenarioA_p4]"
  using scenarioA_key_neq
  by (simp add: stage_deduplicated_def scenarioA_filtered removeDuplicates_def Let_def
      scenarioA_keys(1,2))

lemma scenarioA_output: "processTweets scenarioA 3 10 = [scenarioA_p2, scenarioA_p4]"
  by (simp add: processTweets_stages scenarioA_deduplicated sortByLikes_def js_sort_def
      js_slice0_def scenarioA_likes)

lemma ties_processed: "stage_processed ties = [ties_p1, ties_p2, ties_p3]"
  by (simp add: stage_processed_def ties_def createSearchResponse_def response_users_def
      response_tweets_def createTweet_def List.map_filter_simps
      convertToProcessedTweet_def scenarioA_users processed_def ties_p1_def ties_p2_def
      ties_p3_def)
     (simp add: fixture_users_def lit_def)

lemma ties_likes: "likes ties_p1 = 5" "likes ties_p2 = 10" "likes ties_p3 = 5"
  by (simp_all add: ties_p1_def ties_p2_def ties_p3_def processed_def)

lemma ties_keys:
  "dedup_key ties_p1 = lit ''First post''"
  "dedup_key ties_p2 = lit ''Second post''"
  "dedup_key ties_p3 = lit ''Third post''"
  by (simp_all add: dedup_key_def ties_p1_def ties_p2_def ties_p3_def processed_def
      DUPLICATE_CHECK_LENGTH_def trim_def lit_def is_js_space_def)

lemma ties_deduplicated: "stage_deduplicated ties 0 = [ties_p1, ties_p2, ties_p3]"
  by (simp add: stage_deduplicated_def stage_filtered_def ties_processed filterByLikes_def
      ties_likes removeDuplicates_def Let_def ties_keys lit_eq_iff)

lemma ties_output: "processTweets ties 0 10 = [ties_p2, ties_p1, ties_p3]"
  by (simp add: processTweets_stages ties_deduplicated sortByLikes_def js_sort_def
      js_slice0_def ties_likes)


lemma fold_userMap_Some:
  "fold (\<lambda>u m. m(user_id u \<mapsto> u)) us m0 k = Some u \<Longrightarrow>
     (u \<in> set us \<and> user_id u = k) \<or> m0 k = Some u"
proof (induction us arbitrary: m0)
  case Nil
  then show ?case by simp
next
  case (Cons a us)
  from Cons.prems have "fold (\<lambda>u m. m(user_id u \<mapsto> u)) us (m0(user_id a \<mapsto> a)) k = Some u"
    by (simp only: fold_simps comp_apply)
  from Cons.IH [OF this] show ?case
    by (auto split: if_splits)
qed

lemma fold_userMap_dom:
  "dom (fold (\<lambda>u m. m(user_id u \<mapsto> u)) us m0) = dom m0 \<union> user_id ` set us"
  by (induction us arbitrary: m0) auto

lemma createUserMap_Some:
  "createUserMap us k = Some u \<Longrightarrow> u \<in> set us \<and> user_id u = k"
  using fold_userMap_Some [of us Map.empty k u] by (simp add: createUserMap_def)

lemma createUserMap_None: "createUserMap us k = None \<longleftrightarrow> k \<notin> user_id ` set us"
proof -
  have "dom (createUserMap us) = user_id ` set us"
    using fold_userMap_dom [of us Map.empty] by (simp add: createUserMap_def)
  then show ?thesis by (metis domIff)
qed

lemma set_map_filter_iff:
  "y \<in> set (List.map_filter f xs) \<longleftrightarrow> (\<exists>x \<in> set xs. f x = Some y)"
  by (induction xs) (auto split: option.splits)

lemma stage_processed_member:
  "p \<in> set (stage_processed r) \<longleftrightarrow>
     (\<exists>tw \<in> set (response_tweets r).
        convertToProcessedTweet tw (createUserMap (response_users r)) = Some p)"
  by (simp add: stage_processed_def set_map_filter_iff)

lemma filterByLikes_subset: "set (filterByLikes ts m) \<subseteq> set ts"
  by (auto simp: filterByLikes_def)

lemma processTweets_from_processed: "set (processTweets r m d) \<subseteq> set (stage_processed r)"
  using processTweets_subset [of r m d] removeDuplicates_subset [of "stage_filtered r m"]
    filterByLikes_subset [of "stage_processed r" m]
  by (auto simp: stage_deduplicated_def stage_filtered_def)

lemma processTweets_filtered: "set (processTweets r m d) \<subseteq> set (stage_filtered r m)"
  using processTweets_subset [of r m d] removeDuplicates_subset [of "stage_filtered r m"]
  by (auto simp: stage_deduplicated_def)

lemma zero_likes_converted:
  "data zero_likes = Some [createTweet ''tweet_1'' ''user1'' ''Zero likes tweet'' 0 0]"
  "convertToProcessedTweet (createTweet ''tweet_1'' ''user1'' ''Zero likes tweet'' 0 0)
     (createUserMap (response_users zero_likes)) = Some zero_likes_p1"
  "likes zero_likes_p1 = 0"
  by (simp_all add: zero_likes_def createSearchResponse_def response_users_def
      convertToProcessedTweet_def createTweet_def scenarioA_users zero_likes_p1_def processed_def)
     (simp add: fixture_users_def lit_def)

lemma scenarioA_converted:
  "convertToProcessedTweet (scenarioA_tweets ! 0) (createUserMap (response_users scenarioA))
     = Some (processed ''tweet_1'' ''Rails Developer'' ''rails_dev'' ''Low likes tweet'' 2 0)"
  "convertToProcessedTweet (scenarioA_tweets ! 1) (createUserMap (response_users scenarioA))
     = Some scenarioA_p2"
  "convertToProcessedTweet (scenarioA_tweets ! 2) (createUserMap (response_users scenarioA))
     = Some scenarioA_p3"
  "convertToProcessedTweet (scenarioA_tweets ! 3) (createUserMap (response_users scenarioA))
     = Some scenarioA_p4"
  by (simp_all add: scenarioA_def createSearchResponse_def response_users_def scenarioA_tweets_def
      convertToProcessedTweet_def createTweet_def scenarioA_users scenarioA_p2_def scenarioA_p3_def
      scenarioA_p4_def processed_def)
     (simp_all add: fixture_users_def lit_def)


section \<open>The composed query\<close>

lemma lit_space: "lit '' '' = [0x20]"
  by (simp add: lit_def)

lemma js_includes_single: "js_includes s [c] \<longleftrightarrow> c \<in> set s"
  by (induction s) auto

lemma keywordTerm_contains_space:
  "keywordTerm k = (if contains_space (kw_term k)
                    then lit [CHR 0x22] @ kw_term k @ lit [CHR 0x22] else kw_term k)"
  by (simp add: keywordTerm_def contains_space_def lit_space js_includes_single)

lemma fullQuery_quoted_or_group: "fullQuery kws gs = quoted_or_group contains_space kws gs"
proof -
  have kt: "keywordTerm =
        (\<lambda>k. if contains_space (kw_term k)
              then lit [CHR 0x22] @ kw_term k @ lit [CHR 0x22] else kw_term k)"
    by (rule ext) (rule keywordTerm_contains_space)
  show ?thesis
    unfolding fullQuery_def quoted_or_group_def kt
    by (simp add: BASE_CONDITIONS_def lit_def)
qed

lemma long_keyword_length:
  "0 < n \<Longrightarrow> length (fullQuery [long_keyword n] createGlobalSettings) = n + 22"
  by (simp add: fullQuery_quoted_or_group quoted_or_group_def contains_space_def long_keyword_def
      createKeywordEntry_def createGlobalSettings_def lit_def)


lemma length_js_join_replicate:
  "length (js_join sep (replicate (Suc n) x)) = Suc n * length x + n * length sep"
  by (induction n) simp_all

lemma scenarioE_length:
  "length (fullQuery (replicate 100 (long_keyword 20)) createGlobalSettings) = 2418"
proof -
  have k: "keywordTerm (long_keyword 20) = replicate 20 0x61"
    by (simp add: keywordTerm_contains_space contains_space_def long_keyword_def
        createKeywordEntry_def)
  have "length (js_join (lit '' OR '') (replicate (Suc 99) (replicate 20 (0x61 :: code_unit))))
          = Suc 99 * length (replicate 20 (0x61 :: code_unit)) + 99 * length (lit '' OR '')"
    by (rule length_js_join_replicate)
  then have "length (js_join (lit '' OR '') (replicate 100 (replicate 20 (0x61 :: code_unit)))) = 2396"
    by (simp add: lit_def)
  then show ?thesis
    by (simp add: fullQuery_def k BASE_CONDITIONS_def createGlobalSettings_def lit_def)
qed


section \<open>The retry loop\<close>

lemma readSearchResponse_to_json: "readSearchResponse (to_json r) = Inr r"
  by (simp add: readSearchResponse_def to_json_def)

lemma searchRecentTweets_calls:
  "calls (snd (searchRecentTweets net params st)) = calls st + 1"
  by (simp add: searchRecentTweets_def Let_def
      split: fetch_outcome.splits sum.splits caught.splits)

lemma retry_loop_calls:
  "attempt \<le> maxRetries \<Longrightarrow>
     calls st + 1 \<le> calls (snd (retry_loop net params maxRetries retryDelay attempt lastError st))"
proof (induction net params maxRetries retryDelay attempt lastError st rule: retry_loop.induct)
  case (1 net params maxRetries retryDelay attempt lastError st)
  obtain res st' where s: "searchRecentTweets net params st = (res, st')"
    by (cases "searchRecentTweets net params st")
  then have c: "calls st' = calls st + 1"
    using searchRecentTweets_calls [of net params st] by simp
  show ?case
  proof (cases res)
    case (Inr d)
    with s c "1.prems" show ?thesis
      by (subst retry_loop.simps) simp
  next
    case (Inl err)
    show ?thesis
    proof (cases "statusCode err \<notin> {401, 402, 403, 429} \<and> statusCode err \<ge> 500
        \<and> statusCode err < 600 \<and> attempt < maxRetries")
      case True
      then have "calls (st'\<lparr>sleeps := sleeps st' @ [retryDelay]\<rparr>) + 1
          \<le> calls (snd (retry_loop net params maxRetries retryDelay (attempt + 1) (Some err)
                (st'\<lparr>sleeps := sleeps st' @ [retryDelay]\<rparr>)))"
        using "1.IH" [OF "1.prems" s [symmetric] Inl] by simp
      with True s c Inl "1.prems" show ?thesis
        by (subst retry_loop.simps) simp
    next
      case False
      with s c Inl "1.prems" show ?thesis
        by (subst retry_loop.simps) auto
    qed
  qed
qed

lemma handleErrorResponse_error:
  "\<not> response_ok s \<Longrightarrow> body \<noteq> Inr JsonNull \<Longrightarrow>
   handleErrorResponse s body =
     Inl (ClientError (XApiClientError
           (if s = 401 \<or> s = 403 then MsgAuth
            else if s = 402 then MsgCredit
            else if s = 429 then MsgRateLimit
            else if s = 500 \<or> s = 502 \<or> s = 503 \<or> s = 504 then MsgServer s
            else MsgGeneric s)
           s
           (Some (case (case body of Inr (JsonObject d) \<Rightarrow> obj_errors d | _ \<Rightarrow> None) of
                    None \<Rightarrow> [] | Some es \<Rightarrow> es))))"
  by (simp add: handleErrorResponse_def Let_def split: sum.splits json_value.splits)

lemma handleErrorResponse_error_body:
  "\<not> response_ok s \<Longrightarrow>
   handleErrorResponse s (Inr error_body) =
     Inl (ClientError (XApiClientError
           (if s = 401 \<or> s = 403 then MsgAuth
            else if s = 402 then MsgCredit
            else if s = 429 then MsgRateLimit
            else if s = 500 \<or> s = 502 \<or> s = 503 \<or> s = 504 then MsgServer s
            else MsgGeneric s)
           s (Some [])))"
  by (simp add: handleErrorResponse_error error_body_def)

lemma searchRecentTweets_status:
  "net (calls st) params = Resolved s body \<Longrightarrow>
   handleErrorResponse s body = Inl (ClientError err) \<Longrightarrow>
   searchRecentTweets net params st = (Inl err, st\<lparr>calls := calls st + 1\<rparr>)"
  by (simp add: searchRecentTweets_def Let_def)

lemma searchRecentTweets_ok:
  "net (calls st) params = Resolved 200 (Inr (to_json r)) \<Longrightarrow>
   searchRecentTweets net params st = (Inr r, st\<lparr>calls := calls st + 1\<rparr>)"
  by (simp add: searchRecentTweets_def Let_def handleErrorResponse_def response_ok_def
      readSearchResponse_to_json)

lemma net_status_then_ok_run:
  assumes "\<not> response_ok s" and "500 \<le> s" and "s < 600"
  shows "searchRecentTweetsWithRetry (net_status_then_ok s) defaultParams 1 30000 fresh_client =
     (Inr createEmptyResponse, \<lparr>calls = 2, sleeps = [30000]\<rparr>)"
proof -
  let ?e = "XApiClientError
           (if s = 401 \<or> s = 403 then MsgAuth
            else if s = 402 then MsgCredit
            else if s = 429 then MsgRateLimit
            else if s = 500 \<or> s = 502 \<or> s = 503 \<or> s = 504 then MsgServer s
            else MsgGeneric s)
           s (Some [])"
  have 1: "searchRecentTweets (net_status_then_ok s) defaultParams fresh_client =
      (Inl ?e, \<lparr>calls = 1, sleeps = []\<rparr>)"
    using searchRecentTweets_status [where net = "net_status_then_ok s" and st = fresh_client
        and params = defaultParams and s = s and body = "Inr error_body" and err = ?e]
      handleErrorResponse_error_body [OF assms(1)]
    by (simp add: net_status_then_ok_def fresh_client_def)
  have 2: "searchRecentTweets (net_status_then_ok s) defaultParams \<lparr>calls = 1, sleeps = [30000]\<rparr> =
      (Inr createEmptyResponse, \<lparr>calls = 2, sleeps = [30000]\<rparr>)"
    using searchRecentTweets_ok [where net = "net_status_then_ok s"
        and st = "\<lparr>calls = 1, sleeps = [30000]\<rparr>" and params = defaultParams
        and r = createEmptyResponse]
    by (simp add: net_status_then_ok_def)
  have "retry_loop (net_status_then_ok s) defaultParams 1 30000 1 (Some ?e)
          \<lparr>calls = 1, sleeps = [30000]\<rparr> = (Inr createEmptyResponse, \<lparr>calls = 2, sleeps = [30000]\<rparr>)"
    using 2 by (subst retry_loop.simps) simp
  then show ?thesis
    unfolding searchRecentTweetsWithRetry_def
    using assms(2,3) 1 by (subst retry_loop.simps) simp
qed

lemma null_body_not_retried:
  "searchRecentTweetsWithRetry net_503_null defaultParams 1 30000 fresh_client =
     (Inl (Thrown (XApiClientError (MsgRequestFailed (error_text (type_error ''errors''))) 0 None)),
      \<lparr>calls = 1, sleeps = []\<rparr>)"
proof -
  have "searchRecentTweets net_503_null defaultParams fresh_client =
      (Inl (XApiClientError (MsgRequestFailed (error_text (type_error ''errors''))) 0 None),
       \<lparr>calls = 1, sleeps = []\<rparr>)"
    by (simp add: searchRecentTweets_def net_503_null_def fresh_client_def handleErrorResponse_def
        response_ok_def wrapFetchError_def type_error_def lit_def Let_def)
  then show ?thesis
    unfolding searchRecentTweetsWithRetry_def
    by (subst retry_loop.simps) simp
qed


section \<open>The daily job\<close>

lemma validateKeywords_terms:
  "map kw_term ks1 = map kw_term ks2 \<Longrightarrow>
   list_all (\<lambda>k. case kw_min_likes k of None \<Rightarrow> True | Some m \<Rightarrow> 0 \<le> m) ks1 \<Longrightarrow>
   list_all (\<lambda>k. case kw_min_likes k of None \<Rightarrow> True | Some m \<Rightarrow> 0 \<le> m) ks2 \<Longrightarrow>
   validateKeywords ks1 i = validateKeywords ks2 i"
proof (induction ks1 arbitrary: ks2 i)
  case Nil
  then show ?case by simp
next
  case (Cons k ks1)
  from Cons.prems(1) obtain k' ks2' where ks2: "ks2 = k' # ks2'" by (cases ks2) auto
  with Cons.prems(1) have t: "kw_term k = kw_term k'" and m: "map kw_term ks1 = map kw_term ks2'"
    by simp_all
  from Cons.prems(2,3) ks2
  have n: "(case kw_min_likes k of None \<Rightarrow> False | Some m \<Rightarrow> m < 0) = False"
          "(case kw_min_likes k' of None \<Rightarrow> False | Some m \<Rightarrow> m < 0) = False"
    and l: "list_all (\<lambda>k. case kw_min_likes k of None \<Rightarrow> True | Some m \<Rightarrow> 0 \<le> m) ks1"
           "list_all (\<lambda>k. case kw_min_likes k of None \<Rightarrow> True | Some m \<Rightarrow> 0 \<le> m) ks2'"
    by (auto split: option.splits)
  have v: "validateKeywordEntry k i = validateKeywordEntry k' i"
    unfolding validateKeywordEntry_def n t ..
  have r: "validateKeywords ks1 (Suc i) = validateKeywords ks2' (Suc i)"
    using m l by (rule Cons.IH)
  show ?case
    unfolding ks2 validateKeywords.simps v r ..
qed


lemma fullQuery_terms:
  assumes "map kw_term ks1 = map kw_term ks2"
  shows "fullQuery ks1 gs = fullQuery ks2 gs"
proof -
  define f where "f = (\<lambda>t. if js_includes t (lit '' '') then lit [CHR 0x22] @ t @ lit [CHR 0x22] else t)"
  have "map keywordTerm ks = map f (map kw_term ks)" for ks
    by (simp add: keywordTerm_def f_def)
  then have "map keywordTerm ks1 = map f (map kw_term ks1)"
    and "map keywordTerm ks2 = map f (map kw_term ks2)"
    by blast+
  with assms have "map keywordTerm ks1 = map keywordTerm ks2"
    by (simp only:)
  then show ?thesis
    unfolding fullQuery_def by (simp only:)
qed

lemma buildSearchQueries_terms:
  assumes "map kw_term ks1 = map kw_term ks2"
  shows "buildSearchQueries ks1 gs = buildSearchQueries ks2 gs"
proof -
  from assms have "length ks1 = length ks2" by (rule map_eq_imp_length_eq)
  then show ?thesis
    unfolding buildSearchQueries_def fullQuery_terms [OF assms, of gs] by (simp only:)
qed

lemma buildSearchQueries_Inr:
  "buildSearchQueries ks gs = Inr qs \<Longrightarrow> qs = [fullQuery ks gs]"
  by (auto simp: buildSearchQueries_def Let_def split: if_splits)


lemma validateConfig_same:
  assumes "same_except_keyword_min_likes c1 c2"
    and "keyword_min_likes_nonneg c1" and "keyword_min_likes_nonneg c2"
  shows "validateConfig c1 = validateConfig c2"
proof -
  from assms(1) have ver: "version c1 = version c2"
    and g: "global_settings c1 = global_settings c2"
    and t: "map kw_term (cfg_keywords c1) = map kw_term (cfg_keywords c2)"
    by (simp_all add: same_except_keyword_min_likes_def)
  from t have len: "length (cfg_keywords c1) = length (cfg_keywords c2)"
    by (rule map_eq_imp_length_eq)
  have vk: "validateKeywords (cfg_keywords c1) 0 = validateKeywords (cfg_keywords c2) 0"
    using t assms(2,3) unfolding keyword_min_likes_nonneg_def
    by (rule validateKeywords_terms)
  show ?thesis
    unfolding validateConfig_def ver g len vk ..
qed

lemma job_build_failed:
  "validateConfig c = Inr u \<Longrightarrow>
   buildSearchQueries (cfg_keywords c) (global_settings c) = Inl err \<Longrightarrow>
   executeDailyJob e c t net = (Inl (BuildFailed err), None, fresh_client)"
  by (simp add: executeDailyJob_def loadConfig_def)

lemma job_token_missing:
  "validateConfig c = Inr u \<Longrightarrow>
   buildSearchQueries (cfg_keywords c) (global_settings c) = Inr [q] \<Longrightarrow>
   length (X_BEARER_TOKEN e) = 0 \<Longrightarrow>
   executeDailyJob e c t net = (Inl TokenMissing, None, fresh_client)"
  by (simp add: executeDailyJob_def loadConfig_def)


lemma job_searched:
  "validateConfig c = Inr u \<Longrightarrow>
   buildSearchQueries (cfg_keywords c) (global_settings c) = Inr [q] \<Longrightarrow>
   length (X_BEARER_TOKEN e) \<noteq> 0 \<Longrightarrow>
   executeDailyJob e c t net =
     (case searchRecentTweetsWithRetry net (job_params c q t) 1 30000 fresh_client of
        (r, st) \<Rightarrow>
          (case r of
             Inl err \<Rightarrow> (Inl (SearchFailed err), Some (job_params c q t), st)
           | Inr response \<Rightarrow>
              (Inr \<lparr>sum_tweets = processTweets response (min_likes (global_settings c)) DEFAULT_DISPLAY_LIMIT,
           sum_keywords = map kw_term (cfg_keywords c),
           sum_fetchedCount = result_count (meta response),
           sum_filteredCount = length (processTweets response (min_likes (global_settings c))
                                  DEFAULT_DISPLAY_LIMIT)\<rparr>,
               Some (job_params c q t), st)))"
  unfolding executeDailyJob_def loadConfig_def job_params_def Let_def
  by simp


lemma job_config_failed:
  "validateConfig c = Inl err \<Longrightarrow>
   executeDailyJob e c t net = (Inl (ConfigFailed err), None, fresh_client)"
  by (simp add: executeDailyJob_def loadConfig_def)

lemma config_plain_valid: "validateConfig config_plain = Inr ()"
  by (simp add: validateConfig_def config_plain_def validateGlobalSettings_def
      createGlobalSettings_def createKeywordEntry_def validateKeywordEntry_def trim_def
      is_js_space_def lit_def)

lemma config_plain_query:
  "buildSearchQueries (cfg_keywords config_plain) (global_settings config_plain) =
     Inr [lit (''(#Rails OR '' @ [CHR 0x22] @ ''Hono Framework'' @ [CHR 0x22] @ '') -is:retweet lang:ja'')]"
  by (simp add: config_plain_def buildSearchQueries_def fullQuery_quoted_or_group
      quoted_or_group_def contains_space_def createKeywordEntry_def createGlobalSettings_def
      QUERY_MAX_LENGTH_def lit_def)

lemma net_scenarioA_run:
  "searchRecentTweetsWithRetry net_scenarioA params 1 30000 fresh_client =
     (Inr scenarioA, \<lparr>calls = 1, sleeps = []\<rparr>)"
proof -
  have "searchRecentTweets net_scenarioA params fresh_client =
      (Inr scenarioA, \<lparr>calls = 1, sleeps = []\<rparr>)"
    using searchRecentTweets_ok [where net = net_scenarioA and st = fresh_client
        and params = params and r = scenarioA]
    by (simp add: net_scenarioA_def fresh_client_def)
  then show ?thesis
    unfolding searchRecentTweetsWithRetry_def
    by (subst retry_loop.simps) simp
qed

lemma config_plain_run:
  "fst (executeDailyJob test_env config_plain t net_scenarioA) =
     Inr \<lparr>sum_tweets = [scenarioA_p2, scenarioA_p4],
          sum_keywords = [lit ''#Rails'', lit ''Hono Framework''],
          sum_fetchedCount = 4, sum_filteredCount = 2\<rparr>"
proof -
  have tok: "length (X_BEARER_TOKEN test_env) \<noteq> 0"
    by (simp add: test_env_def lit_def)
  have m: "min_likes (global_settings config_plain) = 3"
    "map kw_term (cfg_keywords config_plain) = [lit ''#Rails'', lit ''Hono Framework'']"
    by (simp_all add: config_plain_def createGlobalSettings_def createKeywordEntry_def)
  have c: "result_count (meta scenarioA) = 4"
    by (simp add: scenarioA_def createSearchResponse_def scenarioA_tweets_def)
  show ?thesis
    unfolding job_searched [OF config_plain_valid config_plain_query tok] net_scenarioA_run
    by (simp add: m c DEFAULT_DISPLAY_LIMIT_def scenarioA_output)
qed

lemma config_negative_rejected:
  "executeDailyJob e config_negative t net =
     (Inl (ConfigFailed (BadKeywordMinLikes 0)), None, fresh_client)"
proof -
  have "validateConfig config_negative = Inl (BadKeywordMinLikes 0)"
    by (simp add: validateConfig_def config_negative_def validateGlobalSettings_def
      createGlobalSettings_def createKeywordEntry_def validateKeywordEntry_def trim_def
      is_js_space_def lit_def)
  then show ?thesis by (rule job_config_failed)
qed


section \<open>The tweet processor\<close>



text \<open>
  Claim C6. The output of \<open>processTweets\<close> is sorted by likes, descending, and the sort
  is stable: for every like count, the output posts with that count are, in the same
  order, the first ones of the deduplicated list with that count; so two output
  posts with equal likes stand in the order they had before the sort.
\<close>
theorem processTweets_sorted_stable:
  "sorted_wrt (\<lambda>a b. likes a \<ge> likes b) (processTweets r m d) \<and>
   (\<forall>k. prefix (filter (\<lambda>t. likes t = k) (processTweets r m d))
               (filter (\<lambda>t. likes t = k) (stage_deduplicated r m))) \<and>
   (\<forall>i j. i < j \<and> j < length (processTweets r m d) \<and>
           likes (processTweets r m d ! i) = likes (processTweets r m d ! j) \<longrightarrow>
           subseq [processTweets r m d ! i, processTweets r m d ! j] (stage_deduplicated r m))"
proof -
  let ?out = "processTweets r m d" and ?dd = "stage_deduplicated r m"
  obtain n where out: "?out = take n (sortByLikes ?dd)"
    using js_slice0_take [of "sortByLikes ?dd" d] by (auto simp: processTweets_stages)
  have srt: "sorted_wrt (\<lambda>a b. likes a \<ge> likes b) ?out"
    unfolding out using sorted_sortByLikes [of ?dd] by (rule sorted_wrt_take)
  have pre: "prefix (filter (\<lambda>t. likes t = k) ?out) (filter (\<lambda>t. likes t = k) ?dd)" for k
  proof -
    have "prefix (take n (sortByLikes ?dd)) (sortByLikes ?dd)" by (rule take_is_prefix)
    then have "prefix (filter (\<lambda>t. likes t = k) ?out) (filter (\<lambda>t. likes t = k) (sortByLikes ?dd))"
      unfolding out by (rule filter_mono_prefix)
    then show ?thesis by (simp add: stable_sortByLikes)
  qed
  have pairs: "subseq [?out ! i, ?out ! j] ?dd"
    if "i < j" "j < length ?out" "likes (?out ! i) = likes (?out ! j)" for i j
  proof -
    let ?P = "\<lambda>t. likes t = likes (?out ! j)"
    have "subseq [?out ! i, ?out ! j] ?out" using that by (simp add: subseq_pair_nth)
    then have "subseq (filter ?P [?out ! i, ?out ! j]) (filter ?P ?out)"
      by (rule subseq_filter)
    then have "subseq [?out ! i, ?out ! j] (filter ?P ?out)" using that by simp
    moreover have "subseq (filter ?P ?out) (filter ?P ?dd)"
      using pre [of "likes (?out ! j)"] by (rule prefix_imp_subseq)
    moreover have "subseq (filter ?P ?dd) ?dd" by simp
    ultimately show ?thesis by (meson subseq_order.order_trans)
  qed
  from srt pre pairs show ?thesis by blast
qed

theorem processTweets_sorted_stable_witness:
  "processTweets ties 0 10 = [ties_p2, ties_p1, ties_p3] \<and>
   stage_deduplicated ties 0 = [ties_p1, ties_p2, ties_p3] \<and>
   likes ties_p1 = likes ties_p3 \<and>
   sorted_wrt (\<lambda>a b. likes a \<ge> likes b) (processTweets ties 0 10) \<and>
   prefix (filter (\<lambda>t. likes t = 5) (processTweets ties 0 10))
          (filter (\<lambda>t. likes t = 5) (stage_deduplicated ties 0)) \<and>
   subseq [ties_p1, ties_p3] (stage_deduplicated ties 0)"
proof -
  note inst = processTweets_sorted_stable [of ties 0 10]
  have idx: "(1::nat) < 2 \<and> 2 < length (processTweets ties 0 10) \<and>
        likes (processTweets ties 0 10 ! 1) = likes (processTweets ties 0 10 ! 2)"
    by (simp add: ties_output ties_likes)
  from inst have "subseq [processTweets ties 0 10 ! 1, processTweets ties 0 10 ! 2]
      (stage_deduplicated ties 0)"
    using idx by blast
  then have "subseq [ties_p1, ties_p3] (stage_deduplicated ties 0)"
    by (simp add: ties_output)
  moreover from inst have "sorted_wrt (\<lambda>a b. likes a \<ge> likes b) (processTweets ties 0 10)"
    by blast
  moreover from inst have "prefix (filter (\<lambda>t. likes t = 5) (processTweets ties 0 10))
          (filter (\<lambda>t. likes t = 5) (stage_deduplicated ties 0))"
    by blast
  ultimately show ?thesis
    by (simp add: ties_output ties_deduplicated ties_likes)
qed

text \<open>
  Claim C3 (scenario A). A response with four posts whose authors are all found among
  the included users, with like counts 2, 10, 10, 5 in response order, where the two
  posts with 10 likes have the same dedup key (and the post with 5 likes another one):
  \<open>processTweets\<close> with \<open>minLikes = 3\<close> and \<open>displayLimit = 10\<close> returns exactly two
  posts, first the earlier of the two posts with 10 likes, then the post with 5 likes.
\<close>
theorem processTweets_scenarioA:
  assumes "data r = Some [t1, t2, t3, t4]"
    and "like_count (public_metrics t1) = 2" and "like_count (public_metrics t2) = 10"
    and "like_count (public_metrics t3) = 10" and "like_count (public_metrics t4) = 5"
    and "convertToProcessedTweet t1 (createUserMap (response_users r)) = Some p1"
    and "convertToProcessedTweet t2 (createUserMap (response_users r)) = Some p2"
    and "convertToProcessedTweet t3 (createUserMap (response_users r)) = Some p3"
    and "convertToProcessedTweet t4 (createUserMap (response_users r)) = Some p4"
    and "dedup_key p2 = dedup_key p3"
    and "dedup_key p4 \<noteq> dedup_key p2"
  shows "processTweets r 3 10 = [p2, p4] \<and> likes p2 = 10 \<and> likes p4 = 5
         \<and> p_id p2 = tweet_id t2 \<and> p_id p4 = tweet_id t4"
proof -
  have lk: "likes p1 = 2" "likes p2 = 10" "likes p3 = 10" "likes p4 = 5"
    and ids: "p_id p2 = tweet_id t2" "p_id p4 = tweet_id t4"
    using assms by (auto simp: convertToProcessedTweet_def split: option.splits)
  have "stage_processed r = [p1, p2, p3, p4]"
    using assms by (simp add: stage_processed_def response_tweets_def List.map_filter_simps)
  then have "stage_filtered r 3 = [p2, p3, p4]"
    by (simp add: stage_filtered_def filterByLikes_def lk)
  then have "stage_deduplicated r 3 = [p2, p4]"
    using assms(10,11) by (simp add: stage_deduplicated_def removeDuplicates_def Let_def)
  then have "processTweets r 3 10 = [p2, p4]"
    by (simp add: processTweets_stages sortByLikes_def js_sort_def js_slice0_def lk)
  with lk ids show ?thesis by simp
qed

theorem processTweets_scenarioA_witness:
  "map (\<lambda>t. like_count (public_metrics t)) scenarioA_tweets = [2, 10, 10, 5] \<and>
   data scenarioA = Some scenarioA_tweets \<and>
   dedup_key scenarioA_p2 = dedup_key scenarioA_p3 \<and>
   processTweets scenarioA 3 10 = [scenarioA_p2, scenarioA_p4] \<and>
   likes scenarioA_p2 = 10 \<and> likes scenarioA_p4 = 5 \<and>
   p_id scenarioA_p2 = lit ''tweet_2'' \<and> p_id scenarioA_p4 = lit ''tweet_4''"
proof -
  have d: "data scenarioA = Some [scenarioA_tweets ! 0, scenarioA_tweets ! 1,
      scenarioA_tweets ! 2, scenarioA_tweets ! 3]"
    by (simp add: scenarioA_def createSearchResponse_def scenarioA_tweets_def)
  have l: "like_count (public_metrics (scenarioA_tweets ! 0)) = 2"
    "like_count (public_metrics (scenarioA_tweets ! 1)) = 10"
    "like_count (public_metrics (scenarioA_tweets ! 2)) = 10"
    "like_count (public_metrics (scenarioA_tweets ! 3)) = 5"
    by (simp_all add: scenarioA_tweets_def createTweet_def)
  have k: "dedup_key scenarioA_p2 = dedup_key scenarioA_p3" by (simp add: scenarioA_keys)
  note r = processTweets_scenarioA [OF d l scenarioA_converted k scenarioA_key_neq]
  have ids: "tweet_id (scenarioA_tweets ! 1) = lit ''tweet_2''"
    "tweet_id (scenarioA_tweets ! 3) = lit ''tweet_4''"
    by (simp_all add: scenarioA_tweets_def createTweet_def)
  have "map (\<lambda>t. like_count (public_metrics t)) scenarioA_tweets = [2, 10, 10, 5]"
    by (simp add: scenarioA_tweets_def createTweet_def)
  moreover have "data scenarioA = Some scenarioA_tweets"
    by (simp add: scenarioA_def createSearchResponse_def)
  ultimately show ?thesis using r k ids by simp
qed

text \<open>
  Claim C8. Every post in the output of \<open>processTweets\<close> was built from a post of the
  response and a user of the response's included users whose id is the post's
  \<open>author_id\<close>; a post without such a user is converted to nothing (no placeholder
  author), so a response in which no post has one gives the empty list. In
  particular the output is the empty list when \<open>includes\<close> or \<open>includes.users\<close> is
  absent, and when \<open>data\<close> is absent or empty.
\<close>
theorem processTweets_author_resolved:
  "(\<forall>p \<in> set (processTweets r m d).
      \<exists>tw \<in> set (response_tweets r). \<exists>u \<in> set (response_users r).
        user_id u = author_id tw \<and>
        p = \<lparr>p_id = tweet_id tw, p_text = tweet_text tw,
             p_author = \<lparr>author_name = user_name u, author_username = username u\<rparr>,
             p_created_at = created_at tw,
             likes = like_count (public_metrics tw),
             retweets = retweet_count (public_metrics tw),
             url = lit ''https://x.com/'' @ username u @ lit ''/status/'' @ tweet_id tw\<rparr>) \<and>
   (\<forall>tw. author_id tw \<notin> user_id ` set (response_users r) \<longrightarrow>
      convertToProcessedTweet tw (createUserMap (response_users r)) = None) \<and>
   ((\<forall>tw \<in> set (response_tweets r). author_id tw \<notin> user_id ` set (response_users r)) \<longrightarrow>
      processTweets r m d = []) \<and>
   ((resp_includes r = None \<or> (\<exists>inc. resp_includes r = Some inc \<and> users inc = None)) \<longrightarrow>
      processTweets r m d = []) \<and>
   ((data r = None \<or> data r = Some []) \<longrightarrow> processTweets r m d = [])"
proof -
  let ?um = "createUserMap (response_users r)"
  have a: "\<exists>tw \<in> set (response_tweets r). \<exists>u \<in> set (response_users r).
        user_id u = author_id tw \<and>
        p = \<lparr>p_id = tweet_id tw, p_text = tweet_text tw,
             p_author = \<lparr>author_name = user_name u, author_username = username u\<rparr>,
             p_created_at = created_at tw,
             likes = like_count (public_metrics tw),
             retweets = retweet_count (public_metrics tw),
             url = lit ''https://x.com/'' @ username u @ lit ''/status/'' @ tweet_id tw\<rparr>"
    if "p \<in> set (processTweets r m d)" for p
  proof -
    from that have "p \<in> set (stage_processed r)"
      using processTweets_from_processed by blast
    then obtain tw where tw: "tw \<in> set (response_tweets r)"
      and conv: "convertToProcessedTweet tw ?um = Some p"
      by (auto simp: stage_processed_member)
    from conv obtain u where u: "?um (author_id tw) = Some u"
      by (auto simp: convertToProcessedTweet_def split: option.splits)
    from createUserMap_Some [OF u] have "u \<in> set (response_users r)" "user_id u = author_id tw"
      by simp_all
    moreover from conv u have "p = \<lparr>p_id = tweet_id tw, p_text = tweet_text tw,
             p_author = \<lparr>author_name = user_name u, author_username = username u\<rparr>,
             p_created_at = created_at tw,
             likes = like_count (public_metrics tw),
             retweets = retweet_count (public_metrics tw),
             url = lit ''https://x.com/'' @ username u @ lit ''/status/'' @ tweet_id tw\<rparr>"
      by (simp add: convertToProcessedTweet_def)
    ultimately show ?thesis using tw by blast
  qed
  have b: "convertToProcessedTweet tw ?um = None"
    if "author_id tw \<notin> user_id ` set (response_users r)" for tw
    using that createUserMap_None [of "response_users r" "author_id tw"]
    by (simp add: convertToProcessedTweet_def)
  have c: "processTweets r m d = []"
    if "\<forall>tw \<in> set (response_tweets r). author_id tw \<notin> user_id ` set (response_users r)"
  proof -
    have "\<forall>p. p \<notin> set (stage_processed r)"
      using that b by (fastforce simp: stage_processed_member)
    then have "set (stage_processed r) = {}" by auto
    then show ?thesis
      using processTweets_from_processed [of r m d] by simp
  qed
  have d: "processTweets r m d = []"
    if "resp_includes r = None \<or> (\<exists>inc. resp_includes r = Some inc \<and> users inc = None)"
  proof -
    from that have "response_users r = []"
      by (auto simp: response_users_def)
    then show ?thesis using c by simp
  qed
  have e: "processTweets r m d = []" if "data r = None \<or> data r = Some []"
    using that by (auto simp: processTweets_def response_tweets_def)
  from a b c d e show ?thesis by blast
qed

theorem processTweets_author_resolved_witness:
  "scenarioA_p2 \<in> set (processTweets scenarioA 3 10) \<and>
   (\<exists>tw \<in> set scenarioA_tweets. \<exists>u \<in> set fixture_users.
        user_id u = author_id tw \<and> p_id scenarioA_p2 = tweet_id tw \<and>
        p_author scenarioA_p2 = \<lparr>author_name = user_name u, author_username = username u\<rparr>) \<and>
   resp_includes (scenarioA\<lparr>resp_includes := None\<rparr>) = None \<and>
   processTweets (scenarioA\<lparr>resp_includes := None\<rparr>) 3 10 = [] \<and>
   resp_includes (scenarioA\<lparr>resp_includes := Some \<lparr>users = None\<rparr>\<rparr>) = Some \<lparr>users = None\<rparr> \<and>
   processTweets (scenarioA\<lparr>resp_includes := Some \<lparr>users = None\<rparr>\<rparr>) 3 10 = [] \<and>
   processTweets (scenarioA\<lparr>data := None\<rparr>) 3 10 = [] \<and>
   processTweets (scenarioA\<lparr>data := Some []\<rparr>) 3 10 = []"
proof -
  have mem: "scenarioA_p2 \<in> set (processTweets scenarioA 3 10)"
    by (simp add: scenarioA_output)
  have tw: "response_tweets scenarioA = scenarioA_tweets" "response_users scenarioA = fixture_users"
    by (simp_all add: scenarioA_def createSearchResponse_def response_tweets_def response_users_def)
  from processTweets_author_resolved [of scenarioA 3 10] mem
  have "\<exists>tw \<in> set (response_tweets scenarioA). \<exists>u \<in> set (response_users scenarioA).
        user_id u = author_id tw \<and>
        scenarioA_p2 = \<lparr>p_id = tweet_id tw, p_text = tweet_text tw,
             p_author = \<lparr>author_name = user_name u, author_username = username u\<rparr>,
             p_created_at = created_at tw,
             likes = like_count (public_metrics tw),
             retweets = retweet_count (public_metrics tw),
             url = lit ''https://x.com/'' @ username u @ lit ''/status/'' @ tweet_id tw\<rparr>"
    by blast
  then obtain tw u where "tw \<in> set scenarioA_tweets" "u \<in> set fixture_users"
    "user_id u = author_id tw"
    "scenarioA_p2 = \<lparr>p_id = tweet_id tw, p_text = tweet_text tw,
             p_author = \<lparr>author_name = user_name u, author_username = username u\<rparr>,
             p_created_at = created_at tw,
             likes = like_count (public_metrics tw),
             retweets = retweet_count (public_metrics tw),
             url = lit ''https://x.com/'' @ username u @ lit ''/status/'' @ tweet_id tw\<rparr>"
    unfolding tw by blast
  then have res: "\<exists>tw \<in> set scenarioA_tweets. \<exists>u \<in> set fixture_users.
        user_id u = author_id tw \<and> p_id scenarioA_p2 = tweet_id tw \<and>
        p_author scenarioA_p2 = \<lparr>author_name = user_name u, author_username = username u\<rparr>"
    by (metis processed_tweet.select_convs(1,3))
  have "processTweets (scenarioA\<lparr>resp_includes := None\<rparr>) 3 10 = []"
    using processTweets_author_resolved [of "scenarioA\<lparr>resp_includes := None\<rparr>" 3 10] by simp
  moreover have "processTweets (scenarioA\<lparr>resp_includes := Some \<lparr>users = None\<rparr>\<rparr>) 3 10 = []"
    using processTweets_author_resolved [of "scenarioA\<lparr>resp_includes := Some \<lparr>users = None\<rparr>\<rparr>" 3 10]
    by simp
  moreover have "processTweets (scenarioA\<lparr>data := None\<rparr>) 3 10 = []"
    using processTweets_author_resolved [of "scenarioA\<lparr>data := None\<rparr>" 3 10] by simp
  moreover have "processTweets (scenarioA\<lparr>data := Some []\<rparr>) 3 10 = []"
    using processTweets_author_resolved [of "scenarioA\<lparr>data := Some []\<rparr>" 3 10] by simp
  ultimately show ?thesis using mem res by simp
qed

text \<open>
  Claim C9. Every post in the output of \<open>processTweets\<close> has \<open>likes \<ge> minLikes\<close>. The
  bound is inclusive: the filter keeps a post whose likes equal \<open>minLikes\<close>, with
  \<open>minLikes = 0\<close> it keeps a post without likes, and a response of one such post with
  a known author is returned whole.
\<close>
theorem processTweets_min_likes:
  "(\<forall>p \<in> set (processTweets r m d). likes p \<ge> m) \<and>
   (\<forall>t \<in> set ts. likes t = m \<longrightarrow> t \<in> set (filterByLikes ts m)) \<and>
   (\<forall>t \<in> set ts. likes t = 0 \<longrightarrow> t \<in> set (filterByLikes ts 0)) \<and>
   (data r = Some [tw] \<and> convertToProcessedTweet tw (createUserMap (response_users r)) = Some p
      \<and> likes p = m \<and> d \<ge> 1 \<longrightarrow> processTweets r m d = [p])"
proof -
  have a: "likes q \<ge> m" if "q \<in> set (processTweets r m d)" for q
    using that processTweets_filtered [of r m d]
    by (auto simp: stage_filtered_def filterByLikes_def)
  have b: "processTweets r m d = [p]"
    if "data r = Some [tw]" "convertToProcessedTweet tw (createUserMap (response_users r)) = Some p"
       "likes p = m" "d \<ge> 1"
  proof -
    have "stage_processed r = [p]"
      using that by (simp add: stage_processed_def response_tweets_def List.map_filter_simps)
    then have "stage_deduplicated r m = [p]"
      using that by (simp add: stage_deduplicated_def stage_filtered_def filterByLikes_def
          removeDuplicates_def Let_def)
    then show ?thesis
      using that by (simp add: processTweets_stages sortByLikes_def js_sort_def js_slice0_def)
  qed
  from a b show ?thesis by (auto simp: filterByLikes_def)
qed

theorem processTweets_min_likes_witness:
  "likes zero_likes_p1 = 0 \<and> processTweets zero_likes 0 10 = [zero_likes_p1] \<and>
   scenarioA_p4 \<in> set (processTweets scenarioA 3 10) \<and> likes scenarioA_p4 \<ge> 3"
proof -
  have "processTweets zero_likes 0 10 = [zero_likes_p1]"
    using processTweets_min_likes [of zero_likes 0 10 "[]"
        "createTweet ''tweet_1'' ''user1'' ''Zero likes tweet'' 0 0" zero_likes_p1]
    by (simp add: zero_likes_converted)
  moreover have "scenarioA_p4 \<in> set (processTweets scenarioA 3 10)"
    by (simp add: scenarioA_output)
  moreover from this have "likes scenarioA_p4 \<ge> 3"
    using processTweets_min_likes [of scenarioA 3 10 "[]"] by blast
  ultimately show ?thesis by (simp add: zero_likes_converted)
qed


section \<open>The query builder\<close>

text \<open>
  Claim C4, as amended. For every non-empty keyword list and settings, the composed
  query is the OR-group of all terms in input order, a term in double quotes exactly
  when it contains a space character (U+0020) and as it is otherwise, followed by
  \<open>-is:retweet lang:\<close> and the language of the settings; \<open>buildSearchQueries\<close> returns
  it as its only query when it is not longer than 1024, and fails with its length
  otherwise.
\<close>
theorem buildSearchQueries_format:
  assumes "kws \<noteq> []"
  shows "buildSearchQueries kws gs =
     (if length (quoted_or_group contains_space kws gs) > 1024
      then Inl (QueryTooLong (length (quoted_or_group contains_space kws gs)))
      else Inr [quoted_or_group contains_space kws gs])"
  using assms
  by (simp add: buildSearchQueries_def QUERY_MAX_LENGTH_def Let_def fullQuery_quoted_or_group)

theorem buildSearchQueries_format_witness:
  "[createKeywordEntry (lit ''#Rails'') None, createKeywordEntry (lit ''Hono Framework'') None] \<noteq> [] \<and>
   buildSearchQueries
     [createKeywordEntry (lit ''#Rails'') None, createKeywordEntry (lit ''Hono Framework'') None]
     createGlobalSettings
   = Inr [lit (''(#Rails OR '' @ [CHR 0x22] @ ''Hono Framework'' @ [CHR 0x22] @ '') -is:retweet lang:ja'')]"
  using buildSearchQueries_format
    [of "[createKeywordEntry (lit ''#Rails'') None, createKeywordEntry (lit ''Hono Framework'') None]"
        createGlobalSettings]
  by (simp add: quoted_or_group_def contains_space_def createKeywordEntry_def
      createGlobalSettings_def lit_def)

text \<open>
  Claim C4 as stated fails: the term \<open>a<TAB>b\<close> contains a whitespace character, and
  the code leaves it without quotes, so the query differs from the one that quotes
  every term with whitespace.
\<close>
theorem buildSearchQueries_whitespace_counterexample:
  "contains_whitespace (kw_term tab_keyword) \<and>
   buildSearchQueries [tab_keyword] createGlobalSettings
     = Inr [lit (''(a'' @ [CHR 0x09] @ ''b) -is:retweet lang:ja'')] \<and>
   quoted_or_group contains_whitespace [tab_keyword] createGlobalSettings
     = lit (''('' @ [CHR 0x22] @ ''a'' @ [CHR 0x09] @ ''b'' @ [CHR 0x22] @ '') -is:retweet lang:ja'') \<and>
   buildSearchQueries [tab_keyword] createGlobalSettings
     \<noteq> Inr [quoted_or_group contains_whitespace [tab_keyword] createGlobalSettings]"
  by (simp add: buildSearchQueries_def fullQuery_def keywordTerm_def tab_keyword_def
      createKeywordEntry_def createGlobalSettings_def quoted_or_group_def contains_whitespace_def
      is_js_space_def BASE_CONDITIONS_def QUERY_MAX_LENGTH_def Let_def lit_def)

text \<open>
  Claim C7. For every non-empty keyword list, \<open>buildSearchQueries\<close> fails with the
  too-long error exactly when the composed query is longer than 1024 code units,
  and then returns no query; otherwise (also at exactly 1024) it returns one query,
  the composed one.
\<close>
theorem buildSearchQueries_length:
  assumes "kws \<noteq> []"
  shows "((\<exists>n. buildSearchQueries kws gs = Inl (QueryTooLong n)) \<longleftrightarrow> length (fullQuery kws gs) > 1024) \<and>
     (length (fullQuery kws gs) > 1024 \<longrightarrow>
        buildSearchQueries kws gs = Inl (QueryTooLong (length (fullQuery kws gs)))) \<and>
     (length (fullQuery kws gs) \<le> 1024 \<longrightarrow> buildSearchQueries kws gs = Inr [fullQuery kws gs]) \<and>
     (\<forall>qs. buildSearchQueries kws gs = Inr qs \<longrightarrow> length qs = 1)"
  using assms
  by (auto simp: buildSearchQueries_def QUERY_MAX_LENGTH_def Let_def)

theorem buildSearchQueries_length_witness:
  "[long_keyword 1002] \<noteq> [] \<and>
   length (fullQuery [long_keyword 1002] createGlobalSettings) = 1024 \<and>
   buildSearchQueries [long_keyword 1002] createGlobalSettings
     = Inr [fullQuery [long_keyword 1002] createGlobalSettings] \<and>
   length (fullQuery [long_keyword 1003] createGlobalSettings) = 1025 \<and>
   buildSearchQueries [long_keyword 1003] createGlobalSettings = Inl (QueryTooLong 1025) \<and>
   replicate 100 (long_keyword 20) \<noteq> [] \<and>
   buildSearchQueries (replicate 100 (long_keyword 20)) createGlobalSettings
     = Inl (QueryTooLong 2418)"
proof -
  have ne: "replicate 100 (long_keyword 20) \<noteq> []" by simp
  from buildSearchQueries_length [OF ne, of createGlobalSettings]
  have "buildSearchQueries (replicate 100 (long_keyword 20)) createGlobalSettings
     = Inl (QueryTooLong 2418)"
    by (simp add: scenarioE_length)
  with ne show ?thesis
    using buildSearchQueries_length [of "[long_keyword 1002]" createGlobalSettings]
        buildSearchQueries_length [of "[long_keyword 1003]" createGlobalSettings]
    by (simp add: long_keyword_length)
qed


section \<open>The search client\<close>

text \<open>
  Claim C1 says that a request that times out is retried like a server error. The
  code does not: the timeout becomes a client error with status 0, which is not in
  500..599, so \<open>searchRecentTweetsWithRetry\<close> with \<open>maxRetries = 1\<close> throws it after one
  request and without sleeping, although the second request would have succeeded;
  a first answer with status 500 is followed by a sleep of \<open>retryDelay\<close> and a second
  request.
\<close>
theorem timeout_not_retried:
  "searchRecentTweets net_timeout_then_ok defaultParams fresh_client =
     (Inl (XApiClientError MsgTimeout 0 None), \<lparr>calls = 1, sleeps = []\<rparr>) \<and>
   searchRecentTweetsWithRetry net_timeout_then_ok defaultParams 1 30000 fresh_client =
     (Inl (Thrown (XApiClientError MsgTimeout 0 None)), \<lparr>calls = 1, sleeps = []\<rparr>) \<and>
   searchRecentTweetsWithRetry (net_status_then_ok 500) defaultParams 1 30000 fresh_client =
     (Inr createEmptyResponse, \<lparr>calls = 2, sleeps = [30000]\<rparr>)"
proof -
  have s: "searchRecentTweets net_timeout_then_ok defaultParams fresh_client =
     (Inl (XApiClientError MsgTimeout 0 None), \<lparr>calls = 1, sleeps = []\<rparr>)"
    by (simp add: searchRecentTweets_def net_timeout_then_ok_def fresh_client_def wrapFetchError_def
        abort_error_def Let_def)
  have "searchRecentTweetsWithRetry net_timeout_then_ok defaultParams 1 30000 fresh_client =
     (Inl (Thrown (XApiClientError MsgTimeout 0 None)), \<lparr>calls = 1, sleeps = []\<rparr>)"
    unfolding searchRecentTweetsWithRetry_def
    by (subst retry_loop.simps) (simp add: s)
  moreover have "searchRecentTweetsWithRetry (net_status_then_ok 500) defaultParams 1 30000 fresh_client =
     (Inr createEmptyResponse, \<lparr>calls = 2, sleeps = [30000]\<rparr>)"
    by (rule net_status_then_ok_run) (simp_all add: response_ok_def)
  ultimately show ?thesis using s by simp
qed

text \<open>
  Claim C2, as amended. \<open>searchRecentTweetsWithRetry\<close> is the retry loop started at
  attempt 0. At every attempt of the loop, whatever was tried before, when the
  request is answered with a status that is not 2xx and a body other than the JSON
  value \<open>null\<close>: the error carries the status; for 500, 502, 503 and 504 it is the
  server error; for a status outside 401, 402, 403, 429 and outside 500..599 it is
  the generic API error. When the status is in 500..599 and attempts remain, the
  loop sleeps \<open>retryDelay\<close> and goes on with the next attempt, which sends another
  request; in every other case (a status outside 500..599 at any attempt, or no
  attempt left) the error is thrown after this one request, without a sleep.
\<close>
theorem status_classification_and_retry:
  assumes "\<not> response_ok s"
    and "net (calls st) params = Resolved s body"
    and "body \<noteq> Inr JsonNull"
    and "attempt \<le> maxRetries"
  shows "searchRecentTweetsWithRetry net params maxRetries retryDelay st0 =
           retry_loop net params maxRetries retryDelay 0 None st0 \<and>
    (\<exists>err. handleErrorResponse s body = Inl (ClientError err) \<and> statusCode err = s \<and>
      (s \<in> {500, 502, 503, 504} \<longrightarrow> message err = MsgServer s) \<and>
      (s \<notin> {401, 402, 403, 429} \<and> \<not> (500 \<le> s \<and> s < 600) \<longrightarrow> message err = MsgGeneric s) \<and>
      (if 500 \<le> s \<and> s < 600 \<and> attempt < maxRetries
       then retry_loop net params maxRetries retryDelay attempt lastError st =
              retry_loop net params maxRetries retryDelay (attempt + 1) (Some err)
                (st\<lparr>calls := calls st + 1, sleeps := sleeps st @ [retryDelay]\<rparr>) \<and>
            calls st + 2 \<le>
              calls (snd (retry_loop net params maxRetries retryDelay attempt lastError st))
       else retry_loop net params maxRetries retryDelay attempt lastError st =
              (Inl (Thrown err), st\<lparr>calls := calls st + 1\<rparr>)))"
proof -
  obtain err where err: "handleErrorResponse s body = Inl (ClientError err)"
    and sc: "statusCode err = s"
    and m1: "s \<in> {500, 502, 503, 504} \<longrightarrow> message err = MsgServer s"
    and m2: "s \<notin> {401, 402, 403, 429} \<and> \<not> (500 \<le> s \<and> s < 600) \<longrightarrow> message err = MsgGeneric s"
    using handleErrorResponse_error [OF assms(1,3)] by auto
  note srch = searchRecentTweets_status [where net = net and st = st and params = params,
      OF assms(2) err]
  have loop: "if 500 \<le> s \<and> s < 600 \<and> attempt < maxRetries
       then retry_loop net params maxRetries retryDelay attempt lastError st =
              retry_loop net params maxRetries retryDelay (attempt + 1) (Some err)
                (st\<lparr>calls := calls st + 1, sleeps := sleeps st @ [retryDelay]\<rparr>) \<and>
            calls st + 2 \<le>
              calls (snd (retry_loop net params maxRetries retryDelay attempt lastError st))
       else retry_loop net params maxRetries retryDelay attempt lastError st =
              (Inl (Thrown err), st\<lparr>calls := calls st + 1\<rparr>)"
  proof (cases "500 \<le> s \<and> s < 600 \<and> attempt < maxRetries")
    case True
    have eq: "retry_loop net params maxRetries retryDelay attempt lastError st =
              retry_loop net params maxRetries retryDelay (attempt + 1) (Some err)
                (st\<lparr>calls := calls st + 1, sleeps := sleeps st @ [retryDelay]\<rparr>)"
      using True assms(4) srch sc by (subst retry_loop.simps) simp
    from True have "attempt + 1 \<le> maxRetries" by simp
    then have "calls (st\<lparr>calls := calls st + 1, sleeps := sleeps st @ [retryDelay]\<rparr>) + 1 \<le>
          calls (snd (retry_loop net params maxRetries retryDelay (attempt + 1) (Some err)
                (st\<lparr>calls := calls st + 1, sleeps := sleeps st @ [retryDelay]\<rparr>)))"
      by (rule retry_loop_calls)
    with eq True show ?thesis by simp
  next
    case False
    have "retry_loop net params maxRetries retryDelay attempt lastError st =
              (Inl (Thrown err), st\<lparr>calls := calls st + 1\<rparr>)"
      using False assms(4) srch sc by (subst retry_loop.simps) auto
    with False show ?thesis by simp
  qed
  have "searchRecentTweetsWithRetry net params maxRetries retryDelay st0 =
           retry_loop net params maxRetries retryDelay 0 None st0"
    by (simp add: searchRecentTweetsWithRetry_def)
  with err sc m1 m2 loop show ?thesis by blast
qed

theorem status_classification_and_retry_witness:
  "\<not> response_ok 503 \<and> \<not> response_ok 404 \<and> \<not> response_ok 500 \<and> Inr error_body \<noteq> Inr JsonNull \<and>
   net_statuses [503, 404] 0 defaultParams = Resolved 503 (Inr error_body) \<and>
   net_statuses [503, 404] 1 defaultParams = Resolved 404 (Inr error_body) \<and>
   handleErrorResponse 503 (Inr error_body) =
     Inl (ClientError (XApiClientError (MsgServer 503) 503 (Some []))) \<and>
   searchRecentTweetsWithRetry (net_statuses [503, 404]) defaultParams 2 30000 fresh_client =
     (Inl (Thrown (XApiClientError (MsgGeneric 404) 404 (Some []))),
      \<lparr>calls = 2, sleeps = [30000]\<rparr>) \<and>
   net_statuses [500, 500] 1 defaultParams = Resolved 500 (Inr error_body) \<and>
   retry_loop (net_statuses [500, 500]) defaultParams 1 30000 1 None \<lparr>calls = 1, sleeps = [30000]\<rparr> =
     (Inl (Thrown (XApiClientError (MsgServer 500) 500 (Some []))),
      \<lparr>calls = 2, sleeps = [30000]\<rparr>)"
proof -
  have n: "\<not> response_ok 503" "\<not> response_ok 404" "\<not> response_ok 500"
    by (simp_all add: response_ok_def)
  have nn: "Inr error_body \<noteq> (Inr JsonNull :: js_error + json_value)"
    by (simp add: error_body_def)
  have r: "net_statuses [503, 404] (calls fresh_client) defaultParams = Resolved 503 (Inr error_body)"
    "net_statuses [503, 404] (calls \<lparr>calls = 1, sleeps = [30000]\<rparr>) defaultParams
       = Resolved 404 (Inr error_body)"
    "net_statuses [500, 500] (calls \<lparr>calls = 1, sleeps = [30000]\<rparr>) defaultParams
       = Resolved 500 (Inr error_body)"
    by (simp_all add: net_statuses_def fresh_client_def)
  have h: "handleErrorResponse 503 (Inr error_body) =
      Inl (ClientError (XApiClientError (MsgServer 503) 503 (Some [])))"
    "handleErrorResponse 404 (Inr error_body) =
      Inl (ClientError (XApiClientError (MsgGeneric 404) 404 (Some [])))"
    "handleErrorResponse 500 (Inr error_body) =
      Inl (ClientError (XApiClientError (MsgServer 500) 500 (Some [])))"
    by (simp_all add: handleErrorResponse_error_body n)
  have a: "searchRecentTweetsWithRetry (net_statuses [503, 404]) defaultParams 2 30000 fresh_client =
      retry_loop (net_statuses [503, 404]) defaultParams 2 30000 1
        (Some (XApiClientError (MsgServer 503) 503 (Some []))) \<lparr>calls = 1, sleeps = [30000]\<rparr>"
    using status_classification_and_retry [where net = "net_statuses [503, 404]"
        and st = fresh_client and params = defaultParams and retryDelay = 30000
        and attempt = 0 and maxRetries = 2 and lastError = None and st0 = fresh_client,
        OF n(1) r(1) nn]
    by (auto simp: h fresh_client_def)
  have b: "retry_loop (net_statuses [503, 404]) defaultParams 2 30000 1
        (Some (XApiClientError (MsgServer 503) 503 (Some []))) \<lparr>calls = 1, sleeps = [30000]\<rparr> =
      (Inl (Thrown (XApiClientError (MsgGeneric 404) 404 (Some []))),
       \<lparr>calls = 2, sleeps = [30000]\<rparr>)"
    using status_classification_and_retry [where net = "net_statuses [503, 404]"
        and st = "\<lparr>calls = 1, sleeps = [30000]\<rparr>" and params = defaultParams
        and retryDelay = 30000 and attempt = 1 and maxRetries = 2
        and lastError = "Some (XApiClientError (MsgServer 503) 503 (Some []))",
        OF n(2) r(2) nn]
    by (auto simp: h)
  have c: "retry_loop (net_statuses [500, 500]) defaultParams 1 30000 1 None
        \<lparr>calls = 1, sleeps = [30000]\<rparr> =
      (Inl (Thrown (XApiClientError (MsgServer 500) 500 (Some []))),
       \<lparr>calls = 2, sleeps = [30000]\<rparr>)"
    using status_classification_and_retry [where net = "net_statuses [500, 500]"
        and st = "\<lparr>calls = 1, sleeps = [30000]\<rparr>" and params = defaultParams
        and retryDelay = 30000 and attempt = 1 and maxRetries = 1 and lastError = None,
        OF n(3) r(3) nn]
    by (auto simp: h)
  from n nn r h a b c show ?thesis by (simp add: fresh_client_def)
qed

text \<open>
  Claim C2 as stated fails: the status 505 is outside 500..504 and outside 401, 402,
  403, 429, it carries the generic API error, and it is retried; and the status
  501, inside 500..504, carries the generic API error, not the server error.
\<close>
theorem status_505_counterexample:
  "\<not> response_ok 505 \<and> 505 \<notin> {500, 501, 502, 503, 504 :: int} \<and> 505 \<notin> {401, 402, 403, 429 :: int} \<and>
   handleErrorResponse 505 (Inr error_body) =
     Inl (ClientError (XApiClientError (MsgGeneric 505) 505 (Some []))) \<and>
   searchRecentTweetsWithRetry (net_status_then_ok 505) defaultParams 1 30000 fresh_client =
     (Inr createEmptyResponse, \<lparr>calls = 2, sleeps = [30000]\<rparr>) \<and>
   handleErrorResponse 501 (Inr error_body) =
     Inl (ClientError (XApiClientError (MsgGeneric 501) 501 (Some [])))"
  by (simp add: net_status_then_ok_run handleErrorResponse_error_body response_ok_def)


section \<open>The keywords' min_likes\<close>

text \<open>
  Claim C10, as amended. For two configurations with the same version, global
  settings and terms, whose keywords' \<open>min_likes\<close> are each absent or non-negative
  (the values that \<open>validateKeywordEntry\<close> accepts), the same environment, start time
  and network, \<open>buildSearchQueries\<close> gives the same result and \<open>executeDailyJob\<close>
  behaves the same, errors included; and when the job succeeds, the processor was
  called on the fetched response with the global \<open>min_likes\<close> and the query sent was
  the composed one. \<open>getMinLikes\<close> does not occur in the job.
\<close>
theorem keyword_min_likes_no_effect:
  assumes "same_except_keyword_min_likes c1 c2"
    and "keyword_min_likes_nonneg c1" and "keyword_min_likes_nonneg c2"
  shows "buildSearchQueries (cfg_keywords c1) (global_settings c1)
           = buildSearchQueries (cfg_keywords c2) (global_settings c2) \<and>
         executeDailyJob e c1 startTimeISO net = executeDailyJob e c2 startTimeISO net \<and>
         (\<forall>args params st. executeDailyJob e c1 startTimeISO net = (Inr args, Some params, st) \<longrightarrow>
            (\<exists>response.
               searchRecentTweetsWithRetry net params 1 30000 fresh_client = (Inr response, st) \<and>
               query params = fullQuery (cfg_keywords c1) (global_settings c1) \<and>
               sum_tweets args =
                 processTweets response (min_likes (global_settings c1)) DEFAULT_DISPLAY_LIMIT))"
proof -
  from assms(1) have g: "global_settings c1 = global_settings c2"
    and t: "map kw_term (cfg_keywords c1) = map kw_term (cfg_keywords c2)"
    by (simp_all add: same_except_keyword_min_likes_def)
  have b: "buildSearchQueries (cfg_keywords c1) (global_settings c1)
           = buildSearchQueries (cfg_keywords c2) (global_settings c2)"
    using buildSearchQueries_terms [OF t] g by simp
  have v: "validateConfig c1 = validateConfig c2"
    using assms by (rule validateConfig_same)
  have jp: "job_params c1 q startTimeISO = job_params c2 q startTimeISO" for q
    by (simp add: job_params_def g)
  have j: "executeDailyJob e c1 startTimeISO net = executeDailyJob e c2 startTimeISO net"
  proof (cases "validateConfig c2")
    case (Inl err)
    with v show ?thesis by (simp add: job_config_failed)
  next
    case vc: (Inr u)
    with v have vc1: "validateConfig c1 = Inr u" by simp
    show ?thesis
    proof (cases "buildSearchQueries (cfg_keywords c2) (global_settings c2)")
      case (Inl err)
      with b have "buildSearchQueries (cfg_keywords c1) (global_settings c1) = Inl err" by simp
      with Inl vc vc1 show ?thesis by (simp add: job_build_failed)
    next
      case (Inr qs)
      then obtain q where b2: "buildSearchQueries (cfg_keywords c2) (global_settings c2) = Inr [q]"
        using buildSearchQueries_Inr by blast
      with b have b1: "buildSearchQueries (cfg_keywords c1) (global_settings c1) = Inr [q]" by simp
      show ?thesis
      proof (cases "length (X_BEARER_TOKEN e) = 0")
        case True
        then show ?thesis
          by (simp add: job_token_missing [OF vc b2] job_token_missing [OF vc1 b1])
      next
        case False
        show ?thesis
          unfolding job_searched [OF vc b2 False] job_searched [OF vc1 b1 False] jp g t ..
      qed
    qed
  qed
  have p: "\<exists>response.
               searchRecentTweetsWithRetry net params 1 30000 fresh_client = (Inr response, st) \<and>
               query params = fullQuery (cfg_keywords c1) (global_settings c1) \<and>
               sum_tweets args =
                 processTweets response (min_likes (global_settings c1)) DEFAULT_DISPLAY_LIMIT"
    if run: "executeDailyJob e c1 startTimeISO net = (Inr args, Some params, st)" for args params st
  proof (cases "validateConfig c1")
    case (Inl err)
    with run show ?thesis by (simp add: job_config_failed)
  next
    case vc: (Inr u)
    show ?thesis
    proof (cases "buildSearchQueries (cfg_keywords c1) (global_settings c1)")
      case (Inl err)
      with run vc show ?thesis by (simp add: job_build_failed)
    next
      case (Inr qs)
      let ?q = "fullQuery (cfg_keywords c1) (global_settings c1)"
      from Inr have b1: "buildSearchQueries (cfg_keywords c1) (global_settings c1) = Inr [?q]"
        using buildSearchQueries_Inr by blast
      have tok: "length (X_BEARER_TOKEN e) \<noteq> 0"
        using run job_token_missing [OF vc b1, of e startTimeISO net] by auto
      obtain r st' where
        s: "searchRecentTweetsWithRetry net (job_params c1 ?q startTimeISO) 1 30000 fresh_client = (r, st')"
        by (cases "searchRecentTweetsWithRetry net (job_params c1 ?q startTimeISO) 1 30000 fresh_client")
      show ?thesis
      proof (cases r)
        case (Inl err)
        with run s show ?thesis by (simp add: job_searched [OF vc b1 tok])
      next
        case r: (Inr response)
        with run s have "params = job_params c1 ?q startTimeISO" "st = st'"
          "sum_tweets args = processTweets response (min_likes (global_settings c1)) DEFAULT_DISPLAY_LIMIT"
          by (auto simp: job_searched [OF vc b1 tok])
        with s r show ?thesis by (simp add: job_params_def)
      qed
    qed
  qed
  from b j p show ?thesis by blast
qed

theorem keyword_min_likes_no_effect_witness:
  "same_except_keyword_min_likes config_plain config_min_likes \<and>
   keyword_min_likes_nonneg config_plain \<and> keyword_min_likes_nonneg config_min_likes \<and>
   map kw_min_likes (cfg_keywords config_plain) = [None, None] \<and>
   map kw_min_likes (cfg_keywords config_min_likes) = [Some 5, Some 100] \<and>
   executeDailyJob test_env config_min_likes (lit ''2026-02-09T08:00:00.000Z'') net_scenarioA
     = executeDailyJob test_env config_plain (lit ''2026-02-09T08:00:00.000Z'') net_scenarioA \<and>
   fst (executeDailyJob test_env config_min_likes (lit ''2026-02-09T08:00:00.000Z'') net_scenarioA)
     = Inr \<lparr>sum_tweets = [scenarioA_p2, scenarioA_p4],
            sum_keywords = [lit ''#Rails'', lit ''Hono Framework''],
            sum_fetchedCount = 4, sum_filteredCount = 2\<rparr>"
proof -
  have s: "same_except_keyword_min_likes config_plain config_min_likes"
    by (simp add: same_except_keyword_min_likes_def config_plain_def config_min_likes_def
        createKeywordEntry_def)
  have n: "keyword_min_likes_nonneg config_plain" "keyword_min_likes_nonneg config_min_likes"
    by (simp_all add: keyword_min_likes_nonneg_def config_plain_def config_min_likes_def
        createKeywordEntry_def)
  have k: "map kw_min_likes (cfg_keywords config_plain) = [None, None]"
    "map kw_min_likes (cfg_keywords config_min_likes) = [Some 5, Some 100]"
    by (simp_all add: config_plain_def config_min_likes_def createKeywordEntry_def)
  from keyword_min_likes_no_effect [OF s n, of test_env "lit ''2026-02-09T08:00:00.000Z''" net_scenarioA]
  have "executeDailyJob test_env config_min_likes (lit ''2026-02-09T08:00:00.000Z'') net_scenarioA
     = executeDailyJob test_env config_plain (lit ''2026-02-09T08:00:00.000Z'') net_scenarioA"
    by simp
  with s n k show ?thesis by (simp add: config_plain_run)
qed

text \<open>
  Claim C10 as stated fails: a configuration that differs from another one in a
  keyword's \<open>min_likes\<close> only, where that value is negative, is rejected by
  \<open>loadConfig\<close>, and the job ends with the configuration error before any query is
  built, while the job on the other configuration fetches and processes the posts.
\<close>
theorem keyword_min_likes_negative_counterexample:
  "same_except_keyword_min_likes config_plain config_negative \<and>
   map kw_min_likes (cfg_keywords config_plain) = [None, None] \<and>
   map kw_min_likes (cfg_keywords config_negative) = [Some (- 1), None] \<and>
   executeDailyJob test_env config_negative (lit ''2026-02-09T08:00:00.000Z'') net_scenarioA
     = (Inl (ConfigFailed (BadKeywordMinLikes 0)), None, fresh_client) \<and>
   fst (executeDailyJob test_env config_plain (lit ''2026-02-09T08:00:00.000Z'') net_scenarioA)
     = Inr \<lparr>sum_tweets = [scenarioA_p2, scenarioA_p4],
            sum_keywords = [lit ''#Rails'', lit ''Hono Framework''],
            sum_fetchedCount = 4, sum_filteredCount = 2\<rparr> \<and>
   executeDailyJob test_env config_negative (lit ''2026-02-09T08:00:00.000Z'') net_scenarioA
     \<noteq> executeDailyJob test_env config_plain (lit ''2026-02-09T08:00:00.000Z'') net_scenarioA"
proof -
  have s: "same_except_keyword_min_likes config_plain config_negative"
    by (simp add: same_except_keyword_min_likes_def config_plain_def config_negative_def
        createKeywordEntry_def)
  have k: "map kw_min_likes (cfg_keywords config_plain) = [None, None]"
    "map kw_min_likes (cfg_keywords config_negative) = [Some (- 1), None]"
    by (simp_all add: config_plain_def config_negative_def createKeywordEntry_def)
  note neg = config_negative_rejected [of test_env "lit ''2026-02-09T08:00:00.000Z''" net_scenarioA]
  note pl = config_plain_run [of "lit ''2026-02-09T08:00:00.000Z''"]
  have "fst (executeDailyJob test_env config_negative (lit ''2026-02-09T08:00:00.000Z'') net_scenarioA)
     \<noteq> fst (executeDailyJob test_env config_plain (lit ''2026-02-09T08:00:00.000Z'') net_scenarioA)"
    unfolding neg pl by simp
  then have "executeDailyJob test_env config_negative (lit ''2026-02-09T08:00:00.000Z'') net_scenarioA
     \<noteq> executeDailyJob test_env config_plain (lit ''2026-02-09T08:00:00.000Z'') net_scenarioA"
    by auto
  with s k neg pl show ?thesis by simp
qed

end
